theory Spec2Isabelle
  imports Complex_Main
begin

section \<open>Go library functions used by the agent\<close>

text \<open>
  Go strings are byte sequences; \<^typ>\<open>string\<close> (a list of 8-bit characters) models them
  byte for byte, so \<open>length\<close> is Go's \<open>len\<close>. The functions of package \<open>strings\<close> that work
  on bytes (\<open>HasPrefix\<close>, \<open>HasSuffix\<close>, \<open>TrimPrefix\<close>, \<open>TrimSuffix\<close>, \<open>Contains\<close>,
  \<open>Split\<close>, \<open>SplitN\<close>) are written out below. Those that decode UTF-8 and consult the
  Unicode tables (\<open>ToLower\<close>, \<open>ToUpper\<close>, \<open>ToTitle\<close>, \<open>Fields\<close>, \<open>TrimSpace\<close>) are
  parameters of the model, see \<open>golib\<close> below: a theorem about the agent holds whatever
  they return.
\<close>

type_synonym error = string

definition HasPrefix :: "string \<Rightarrow> string \<Rightarrow> bool" where
  "HasPrefix s p = (take (length p) s = p)"

definition HasSuffix :: "string \<Rightarrow> string \<Rightarrow> bool" where
  "HasSuffix s p = (length p \<le> length s \<and> drop (length s - length p) s = p)"

definition TrimPrefix :: "string \<Rightarrow> string \<Rightarrow> string" where
  "TrimPrefix s p = (if HasPrefix s p then drop (length p) s else s)"

definition TrimSuffix :: "string \<Rightarrow> string \<Rightarrow> string" where
  "TrimSuffix s p = (if HasSuffix s p then take (length s - length p) s else s)"

fun Contains :: "string \<Rightarrow> string \<Rightarrow> bool" where
  "Contains [] sub = (sub = [])"
| "Contains (c # cs) sub = (HasPrefix (c # cs) sub \<or> Contains cs sub)"

text \<open>\<open>strings.Split(s, sep)\<close> for a one-byte separator (the agent splits at \<open>;\<close> only):
  every occurrence of the separator ends a piece, so the result is never empty.\<close>

fun Split :: "string \<Rightarrow> char \<Rightarrow> string list" where
  "Split [] sep = [[]]"
| "Split (c # cs) sep =
     (if c = sep then [] # Split cs sep
      else (case Split cs sep of [] \<Rightarrow> [[c]] | x # xs \<Rightarrow> (c # x) # xs))"

text \<open>\<open>strings.SplitN(s, sep, 2)\<close> for a one-byte separator: the string itself when it
  has no separator, else the text before and the text after the first one.\<close>

definition SplitN2 :: "string \<Rightarrow> char \<Rightarrow> string list" where
  "SplitN2 s sep =
     (if sep \<in> set s
      then [takeWhile (\<lambda>c. c \<noteq> sep) s, tl (dropWhile (\<lambda>c. c \<noteq> sep) s)]
      else [s])"

text \<open>
  A \<open>float64\<close> is a real number, an infinity or not-a-number. The agent never computes with
  one: it compares it with zero and prints it. The two signed zeros are both \<open>Num 0\<close>.
\<close>

datatype float64 = Num real | PosInf | NegInf | NaN

fun isZero :: "float64 \<Rightarrow> bool" where
  "isZero (Num r) = (r = 0)"
| "isZero _ = False"

fun geZero :: "float64 \<Rightarrow> bool" where
  "geZero (Num r) = (0 \<le> r)"
| "geZero PosInf = True"
| "geZero _ = False"

section \<open>Data model\<close>

text \<open>The JSON shapes of the three providers, field for field. A Go map read at a missing
  key gives the zero value; \<open>atKey\<close> is that read for a map of numbers.\<close>

record CoinGeckoMarketData =
  CurrentPrice :: "string \<rightharpoonup> float64"
  PriceChangePercentage24h :: float64
  MarketCap :: "string \<rightharpoonup> float64"
  CirculatingSupply :: float64
  TotalSupply :: float64

record CoinGeckoResponse =
  ID :: string
  Symbol :: string
  Name :: string
  MarketData :: CoinGeckoMarketData

record CMCStatus =
  ErrorCode :: int
  ErrorMessage :: string

record CMCQuoteUSD =
  Price :: float64
  Volume24h :: float64
  MarketCap :: float64
  PercentChange24h :: float64

record CMCQuote =
  USD :: CMCQuoteUSD

record CMCData =
  ID :: int
  Name :: string
  Symbol :: string
  CirculatingSupply :: float64
  TotalSupply :: float64
  Quote :: CMCQuote

record CMCResponse =
  Status :: CMCStatus
  Data :: "string \<rightharpoonup> CMCData"

record Token =
  Address :: string
  Name :: string
  Symbol :: string

record Volume =
  H24 :: float64
  H6 :: float64
  H1 :: float64
  M5 :: float64

record DexPair =
  ChainID :: string
  PairAddress :: string
  BaseToken :: Token
  QuoteToken :: Token
  PriceUsd :: string
  Volume :: Volume
  FDV :: float64

record DexscreenerResponse =
  Pairs :: "DexPair list"

text \<open>The shapes of the single-provider variant. The inner map of a price response is
  kept as the list of its entries, so that its size can be read.\<close>

type_synonym PriceResponse = "string \<rightharpoonup> (string \<times> float64) list"

record MarketDataEntry =
  Name :: string
  CurrentPrice :: float64
  MarketCap :: float64
  PriceChangePercentage24H :: float64
  LastUpdatedTimestamp :: int

type_synonym MarketDataResponse = "MarketDataEntry list"

definition atKey :: "(string \<rightharpoonup> float64) \<Rightarrow> string \<Rightarrow> float64" where
  "atKey m k = (case m k of None \<Rightarrow> Num 0 | Some v \<Rightarrow> v)"

text \<open>
  The library calls whose results the agent only passes on are parameters of the model:
  the Unicode-aware functions of package \<open>strings\<close>, number parsing and printing
  (\<open>SprintfCurrency\<close> and \<open>SprintfQuantity\<close> are the locale printer's \<open>$%.2f\<close> and
  \<open>%.0f\<close>, \<open>SprintfF2\<close> and \<open>SprintfD\<close> are \<open>fmt\<close>'s \<open>%.2f\<close> and \<open>%d\<close>), the URL check of
  \<open>http.NewRequest\<close>, the JSON decoding of each response shape, and the time formatting of
  the single-provider variant.
\<close>

record golib =
  ToLower :: "string \<Rightarrow> string"
  ToUpper :: "string \<Rightarrow> string"
  ToTitle :: "string \<Rightarrow> string"
  Fields :: "string \<Rightarrow> string list"
  TrimSpace :: "string \<Rightarrow> string"
  ParseFloat :: "string \<Rightarrow> float64 \<times> error option"
  SprintfCurrency :: "float64 \<Rightarrow> string"
  SprintfQuantity :: "float64 \<Rightarrow> string"
  SprintfF2 :: "float64 \<Rightarrow> string"
  SprintfD :: "int \<Rightarrow> string"
  NewRequest :: "string \<Rightarrow> error option"
  DecodeCoinGecko :: "string \<Rightarrow> error + CoinGeckoResponse"
  DecodeCMC :: "string \<Rightarrow> error + CMCResponse"
  DecodeDexscreener :: "string \<Rightarrow> error + DexscreenerResponse"
  DecodePrice :: "string \<Rightarrow> error + PriceResponse"
  DecodeMarketData :: "string \<Rightarrow> error + MarketDataResponse"
  FormatUnix :: "int \<Rightarrow> string"

text \<open>
  The outside world of one task: the process environment and the network. A request is a
  GET of a URL, with the query parameters added after its creation and its headers;
  \<open>Do\<close> answers it with a transport error or a response. Every function that may use the
  network returns, beside Go's pair of text and error, the requests it has sent, in order.
  Log lines are not modelled.
\<close>

record request =
  url :: string
  query :: "(string \<times> string) list"
  headers :: "(string \<times> string) list"

record response =
  StatusCode :: int
  Body :: string

record world =
  Getenv :: "string \<Rightarrow> string"
  Do :: "request \<Rightarrow> error + response"

type_synonym outcome = "(string \<times> error option) \<times> request list"

section \<open>Helper functions\<close>

definition coinIDMap :: "string \<rightharpoonup> string" where
  "coinIDMap = map_of
     [(''btc'', ''bitcoin''), (''eth'', ''ethereum''), (''sol'', ''solana''),
      (''ada'', ''cardano''), (''doge'', ''dogecoin''), (''shib'', ''shiba-inu''),
      (''pepe'', ''pepe''), (''avax'', ''avalanche''), (''link'', ''chainlink''),
      (''uni'', ''uniswap''), (''matic'', ''polygon''), (''ltc'', ''litecoin'')]"

definition getCoinID :: "golib \<Rightarrow> string \<Rightarrow> string" where
  "getCoinID L input =
     (let lowerInput = ToLower L input
      in case coinIDMap lowerInput of Some coinID \<Rightarrow> coinID | None \<Rightarrow> lowerInput)"

definition formatCurrency :: "golib \<Rightarrow> float64 \<Rightarrow> string" where
  "formatCurrency L amount = SprintfCurrency L amount"

definition formatQuantity :: "golib \<Rightarrow> float64 \<Rightarrow> string" where
  "formatQuantity L quantity =
     (if isZero quantity then ''N/A'' else SprintfQuantity L quantity)"

section \<open>The response formatter\<close>

definition nl :: string where
  "nl = [CHR 0x0A]"

definition moneyBag :: string where
  "moneyBag = [CHR 0xF0, CHR 0x9F, CHR 0x92, CHR 0xB0]"

definition greenCircle :: string where
  "greenCircle = [CHR 0xF0, CHR 0x9F, CHR 0x9F, CHR 0xA2]"

definition redCircle :: string where
  "redCircle = [CHR 0xF0, CHR 0x9F, CHR 0x94, CHR 0xB4]"

text \<open>Step 1 of \<open>formatOutput\<close>: the loop over the pieces between semicolons.\<close>

fun parseLoop :: "string list \<Rightarrow> (string \<rightharpoonup> string) \<Rightarrow> (string \<rightharpoonup> string)" where
  "parseLoop [] parts = parts"
| "parseLoop (pair # pairs) parts =
     (let kv = SplitN2 pair (CHR '':'')
      in if length kv = 2 then parseLoop pairs (parts(kv ! 0 \<mapsto> kv ! 1))
         else parseLoop pairs parts)"

definition parseParts :: "string \<Rightarrow> (string \<rightharpoonup> string)" where
  "parseParts rawOutput = parseLoop (Split rawOutput (CHR '';'')) Map.empty"

text \<open>\<open>parts[k]\<close>: the empty string at a missing key.\<close>

definition getPart :: "(string \<rightharpoonup> string) \<Rightarrow> string \<Rightarrow> string" where
  "getPart parts k = (case parts k of None \<Rightarrow> [] | Some v \<Rightarrow> v)"

text \<open>The pieces the string builder receives, one definition for each \<open>if\<close> of the
  source.\<close>

definition changeLine :: "golib \<Rightarrow> string \<Rightarrow> string" where
  "changeLine L change =
     (case ParseFloat L (TrimSuffix change ''%'') of
        (changeFloat, None) \<Rightarrow>
          (if geZero changeFloat
           then ''- **24h Change:** **'' @ greenCircle @ '' +'' @ change @ ''**'' @ nl
           else ''- **24h Change:** **'' @ redCircle @ '' '' @ change @ ''**'' @ nl)
      | (changeFloat, Some err) \<Rightarrow>
          (if change \<noteq> [] then ''- **24h Change:** '' @ change @ nl else []))"

definition marketCapLine :: "(string \<rightharpoonup> string) \<Rightarrow> string" where
  "marketCapLine parts =
     (case parts ''market_cap_usd'' of
        Some marketCap \<Rightarrow>
          (if marketCap \<noteq> [] then ''- **Market Cap:** '' @ marketCap @ nl else [])
      | None \<Rightarrow> [])"

definition volumeLine :: "(string \<rightharpoonup> string) \<Rightarrow> string" where
  "volumeLine parts =
     (case parts ''volume_24h'' of
        Some volume \<Rightarrow> (if volume \<noteq> [] then ''- **24h Volume:** '' @ volume @ nl else [])
      | None \<Rightarrow> [])"

definition fdvLine :: "(string \<rightharpoonup> string) \<Rightarrow> string" where
  "fdvLine parts =
     (case parts ''fdv'' of
        Some fdv \<Rightarrow>
          (if fdv \<noteq> [] then ''- **Fully Diluted Value (FDV):** '' @ fdv @ nl else [])
      | None \<Rightarrow> [])"

definition supplyLine :: "(string \<rightharpoonup> string) \<Rightarrow> string" where
  "supplyLine parts =
     (case parts ''circulating_supply'' of
        Some supply \<Rightarrow>
          (if supply \<noteq> ''N/A'' \<and> supply \<noteq> []
           then ''- **Circulating Supply:** '' @ supply @ nl else [])
      | None \<Rightarrow> [])"

definition headerLines :: "(string \<rightharpoonup> string) \<Rightarrow> string" where
  "headerLines parts =
     (let price = getPart parts ''current_price_usd'';
          tokenName = (if getPart parts ''name'' = [] then ''Token'' else getPart parts ''name'')
      in moneyBag @ '' **'' @ tokenName @ '' Price & Market Overview**'' @ nl
         @ ''- **Price (USD):** '' @ price @ nl)"

definition footerLine :: "golib \<Rightarrow> (string \<rightharpoonup> string) \<Rightarrow> string" where
  "footerLine L parts =
     (let source = getPart parts ''token_source''
      in nl @ ''*(Data provided by '' @ ToUpper L source @ '')*'')"

definition formatOutput :: "golib \<Rightarrow> string \<Rightarrow> string" where
  "formatOutput L rawOutput =
     (let parts = parseParts rawOutput;
          change = getPart parts ''24h_change''
      in headerLines parts
         @ changeLine L change
         @ marketCapLine parts
         @ volumeLine parts
         @ fdvLine parts
         @ supplyLine parts
         @ footerLine L parts)"

section \<open>Provider clients\<close>

definition coinGeckoURL :: "string \<Rightarrow> string" where
  "coinGeckoURL coinID =
     ''https://api.coingecko.com/api/v3/coins/'' @ coinID
     @ ''?localization=false&tickers=false&market_data=true''
     @ ''&community_data=false&developer_data=false&sparkline=false''"

definition coinGeckoRequest :: "string \<Rightarrow> string \<Rightarrow> request" where
  "coinGeckoRequest u apiKey =
     \<lparr>url = u, query = [],
      headers = (if apiKey \<noteq> [] then [(''x-cg-demo-api-key'', apiKey)] else [])\<rparr>"

definition getCoinGeckoData :: "golib \<Rightarrow> world \<Rightarrow> string \<Rightarrow> outcome" where
  "getCoinGeckoData L W coinID =
     (let u = coinGeckoURL coinID;
          apiKey = Getenv W ''COINGECKO_API_KEY''
      in case NewRequest L u of
           Some err \<Rightarrow> ((''Error creating HTTP request.'', Some err), [])
         | None \<Rightarrow>
             (let req = coinGeckoRequest u apiKey
              in case Do W req of
                   Inl err \<Rightarrow> ((''Error contacting CoinGecko API.'', Some err), [req])
                 | Inr resp \<Rightarrow>
                     if StatusCode resp \<noteq> 200
                     then ((''Error: CoinGecko API returned status ''
                            @ SprintfD L (StatusCode resp)
                            @ ''. Could not find data for '' @ coinID @ ''.'', None), [req])
                     else (case DecodeCoinGecko L (Body resp) of
                             Inl err \<Rightarrow>
                               ((''Error processing CG API response.'', Some err), [req])
                           | Inr cryptoData \<Rightarrow>
                               (let md = MarketData cryptoData;
                                    priceUSD = formatCurrency L
                                      (atKey (CoinGeckoMarketData.CurrentPrice md) ''usd'');
                                    priceEUR = formatCurrency L
                                      (atKey (CoinGeckoMarketData.CurrentPrice md) ''eur'');
                                    change24h = SprintfF2 L (PriceChangePercentage24h md) @ ''%'';
                                    marketCap = formatCurrency L
                                      (atKey (CoinGeckoMarketData.MarketCap md) ''usd'');
                                    circulatingSupply = formatQuantity L
                                      (CoinGeckoMarketData.CirculatingSupply md);
                                    totalSupply = formatQuantity L
                                      (CoinGeckoMarketData.TotalSupply md)
                                in ((''token_source:coingecko;current_price_usd:'' @ priceUSD
                                     @ '';current_price_eur:'' @ priceEUR
                                     @ '';24h_change:'' @ change24h
                                     @ '';market_cap_usd:'' @ marketCap
                                     @ '';circulating_supply:'' @ circulatingSupply
                                     @ '';total_supply:'' @ totalSupply, None), [req])))))"

definition cmcURL :: string where
  "cmcURL = ''https://pro-api.coinmarketcap.com/v1/cryptocurrency/quotes/latest''"

definition cmcRequest :: "golib \<Rightarrow> string \<Rightarrow> string \<Rightarrow> request" where
  "cmcRequest L symbol apiKey =
     \<lparr>url = cmcURL, query = [(''symbol'', ToUpper L symbol), (''convert'', ''USD'')],
      headers = [(''X-CMC_PRO_API_KEY'', apiKey)]\<rparr>"

definition getCMCData :: "golib \<Rightarrow> world \<Rightarrow> string \<Rightarrow> outcome" where
  "getCMCData L W symbol =
     (case NewRequest L cmcURL of
        Some err \<Rightarrow> ((''Error creating HTTP request.'', Some err), [])
      | None \<Rightarrow>
          (let apiKey = Getenv W ''CMC_API_KEY''
           in if apiKey = [] then ((''Error: CMC_API_KEY not found in .env file.'', None), [])
              else
                (let req = cmcRequest L symbol apiKey
                 in case Do W req of
                      Inl err \<Rightarrow> ((''Error contacting CoinMarketCap API.'', Some err), [req])
                    | Inr resp \<Rightarrow>
                        (case DecodeCMC L (Body resp) of
                           Inl err \<Rightarrow>
                             ((''Error processing CMC API response.'', Some err), [req])
                         | Inr cryptoData \<Rightarrow>
                             if ErrorCode (Status cryptoData) \<noteq> 0
                             then ((''CMC could not find market data for symbol: '' @ symbol
                                    @ ''. Error: '' @ ErrorMessage (Status cryptoData),
                                    None), [req])
                             else (case Data cryptoData (ToUpper L symbol) of
                                     None \<Rightarrow>
                                       ((''CMC could not find market data for symbol: ''
                                         @ symbol @ ''. Try another symbol.'', None), [req])
                                   | Some d \<Rightarrow>
                                       (let usd = USD (Quote d);
                                            priceUSD = formatCurrency L (Price usd);
                                            change24h =
                                              SprintfF2 L (PercentChange24h usd) @ ''%'';
                                            marketCap =
                                              formatCurrency L (CMCQuoteUSD.MarketCap usd);
                                            circulatingSupply =
                                              formatQuantity L (CMCData.CirculatingSupply d);
                                            totalSupply =
                                              formatQuantity L (CMCData.TotalSupply d)
                                        in ((''token_source:coinmarketcap;current_price_usd:''
                                             @ priceUSD
                                             @ '';24h_change:'' @ change24h
                                             @ '';market_cap_usd:'' @ marketCap
                                             @ '';circulating_supply:'' @ circulatingSupply
                                             @ '';total_supply:'' @ totalSupply, None),
                                            [req])))))))"

definition dexURL :: "string \<Rightarrow> string" where
  "dexURL tokenAddress = ''https://api.dexscreener.com/latest/dex/tokens/'' @ tokenAddress"

definition dexRequest :: "string \<Rightarrow> request" where
  "dexRequest tokenAddress = \<lparr>url = dexURL tokenAddress, query = [], headers = []\<rparr>"

definition getDexData :: "golib \<Rightarrow> world \<Rightarrow> string \<Rightarrow> outcome" where
  "getDexData L W tokenAddress =
     (case NewRequest L (dexURL tokenAddress) of
        Some err \<Rightarrow> (([], Some err), [])
      | None \<Rightarrow>
          (let req = dexRequest tokenAddress
           in case Do W req of
                Inl err \<Rightarrow> (([], Some err), [req])
              | Inr resp \<Rightarrow>
                  if StatusCode resp \<noteq> 200
                  then ((''Dexscreener Error: API returned status ''
                         @ SprintfD L (StatusCode resp) @ ''.'', None), [req])
                  else (case DecodeDexscreener L (Body resp) of
                          Inl err \<Rightarrow>
                            ((''Error processing Dexscreener response.'', Some err), [req])
                        | Inr dexData \<Rightarrow>
                            (case Pairs dexData of
                               [] \<Rightarrow>
                                 ((''Dexscreener found no pairs for that token address.'',
                                   None), [req])
                             | pair # others \<Rightarrow>
                                 (let price = fst (ParseFloat L (PriceUsd pair))
                                  in ((''token_source:dexscreener;chain_id:'' @ ChainID pair
                                       @ '';current_price_usd:'' @ formatCurrency L price
                                       @ '';volume_24h:''
                                       @ formatCurrency L (H24 (Volume pair))
                                       @ '';fdv:'' @ formatCurrency L (FDV pair)
                                       @ '';base_token:'' @ Token.Symbol (BaseToken pair),
                                       None), [req]))))))"

section \<open>The dispatcher\<close>

definition usageMessage :: string where
  "usageMessage =
     ''Please specify a command (/price or /market) and a token symbol or contract address.''"

definition unknownCommand :: "string \<Rightarrow> string" where
  "unknownCommand command = ''Unknown command: '' @ command @ ''. Use /price or /market.''"

definition finalFailure :: "string \<Rightarrow> string" where
  "finalFailure lookupTarget =
     ''Could not find market data for '' @ lookupTarget
     @ '' on CoinMarketCap or CoinGecko. Please ensure the symbol is correct''
     @ '' or use a contract address for DEX listings.''"

definition ProcessTask :: "golib \<Rightarrow> world \<Rightarrow> string \<Rightarrow> outcome" where
  "ProcessTask L W input =
     (let parts = Fields L input
      in if length parts < 2 then ((usageMessage, None), [])
         else
           (let command = ToLower L (parts ! 0)
            in if command \<noteq> ''/price'' \<and> command \<noteq> ''/market''
               then ((unknownCommand command, None), [])
               else
                 (let lookupTarget = parts ! 1;
                      cleanInput = ToLower L (TrimSpace L lookupTarget)
                  in if HasPrefix cleanInput ''0x'' \<and> 40 \<le> length cleanInput
                     then (case getDexData L W cleanInput of
                             ((dexResponse, Some err), sent) \<Rightarrow>
                               ((''Error fetching DEX data.'', Some err), sent)
                           | ((dexResponse, None), sent) \<Rightarrow>
                               ((formatOutput L dexResponse, None), sent))
                     else
                       (case getCMCData L W lookupTarget of
                          ((cmcResponse, cmcErr), sent1) \<Rightarrow>
                            if cmcErr = None
                               \<and> \<not> Contains cmcResponse ''CMC could not find market data''
                            then ((formatOutput L cmcResponse, None), sent1)
                            else
                              (let coinID = getCoinID L lookupTarget
                               in case getCoinGeckoData L W coinID of
                                    ((cgResponse, cgErr), sent2) \<Rightarrow>
                                      if cgErr = None
                                         \<and> \<not> Contains cgResponse ''Could not find data for''
                                      then ((formatOutput L cgResponse, None), sent1 @ sent2)
                                      else ((finalFailure lookupTarget, None),
                                            sent1 @ sent2))))))"

section \<open>The single-provider variant\<close>

text \<open>The second program of the repository has CoinGecko as its only provider and the
  bare verbs \<open>price\<close> and \<open>market\<close>. Its functions carry the names of the source, with a
  \<open>2\<close> where the first program has a function of the same name.\<close>

definition coinIDMap2 :: "string \<rightharpoonup> string" where
  "coinIDMap2 = map_of
     [(''btc'', ''bitcoin''), (''eth'', ''ethereum''), (''sol'', ''solana''),
      (''ada'', ''cardano''), (''dot'', ''polkadot''), (''xrp'', ''ripple'')]"

definition getCoinID2 :: "golib \<Rightarrow> string \<Rightarrow> string" where
  "getCoinID2 L input =
     (let lowerInput = ToLower L input
      in case coinIDMap2 lowerInput of Some coinID \<Rightarrow> coinID | None \<Rightarrow> lowerInput)"

definition priceURL :: "string \<Rightarrow> string" where
  "priceURL coinID =
     ''https://api.coingecko.com/api/v3/simple/price?ids='' @ coinID
     @ ''&vs_currencies='' @ ''usd''"

definition handlePriceCommand :: "golib \<Rightarrow> world \<Rightarrow> string list \<Rightarrow> outcome" where
  "handlePriceCommand L W args =
     (if length args = 0
      then ((''Please specify a cryptocurrency symbol (e.g., price bitcoin)'', None), [])
      else
        (let coinID = getCoinID2 L (args ! 0);
             u = priceURL coinID;
             apiKey = Getenv W ''COINGECKO_API_KEY''
         in case NewRequest L u of
              Some err \<Rightarrow> ((''Error creating HTTP request.'', Some err), [])
            | None \<Rightarrow>
                (let req = coinGeckoRequest u apiKey
                 in case Do W req of
                      Inl err \<Rightarrow> ((''Error contacting CoinGecko API.'', Some err), [req])
                    | Inr resp \<Rightarrow>
                        if StatusCode resp \<noteq> 200
                        then ((''Error: CoinGecko API returned status ''
                               @ SprintfD L (StatusCode resp)
                               @ ''. Rate limit likely exceeded.'', None), [req])
                        else (case DecodePrice L (Body resp) of
                                Inl err \<Rightarrow>
                                  ((''Error processing API response.'', Some err), [req])
                              | Inr data \<Rightarrow>
                                  (case data coinID of
                                     None \<Rightarrow>
                                       ((''Could not find price data for symbol: '' @ coinID
                                         @ ''. Please check the spelling.'', None), [req])
                                   | Some priceData \<Rightarrow>
                                       if length priceData = 0
                                       then ((''Could not find price data for symbol: ''
                                              @ coinID @ ''. Please check the spelling.'',
                                              None), [req])
                                       else ((ToTitle L coinID @ '' Price: $''
                                              @ SprintfF2 L (atKey (map_of priceData) ''usd''),
                                              None), [req]))))))"

definition marketURL :: "string \<Rightarrow> string" where
  "marketURL coinID =
     ''https://api.coingecko.com/api/v3/coins/markets?vs_currency=usd&ids='' @ coinID
     @ ''&price_change_percentage=24h''"

definition handleMarketCommand :: "golib \<Rightarrow> world \<Rightarrow> string list \<Rightarrow> outcome" where
  "handleMarketCommand L W args =
     (if length args = 0
      then ((''Please specify a cryptocurrency symbol (e.g., market ethereum)'', None), [])
      else
        (let coinID = getCoinID2 L (args ! 0);
             u = marketURL coinID;
             apiKey = Getenv W ''COINGECKO_API_KEY''
         in case NewRequest L u of
              Some err \<Rightarrow> ((''Error creating HTTP request.'', Some err), [])
            | None \<Rightarrow>
                (let req = coinGeckoRequest u apiKey
                 in case Do W req of
                      Inl err \<Rightarrow> ((''Error contacting CoinGecko API.'', Some err), [req])
                    | Inr resp \<Rightarrow>
                        if StatusCode resp \<noteq> 200
                        then ((''Error: CoinGecko API returned status ''
                               @ SprintfD L (StatusCode resp)
                               @ ''. Rate limit likely exceeded.'', None), [req])
                        else (case DecodeMarketData L (Body resp) of
                                Inl err \<Rightarrow>
                                  ((''Error processing API response.'', Some err), [req])
                              | Inr marketDataList \<Rightarrow>
                                  (case marketDataList of
                                     [] \<Rightarrow>
                                       ((''Could not find market data for symbol: '' @ coinID
                                         @ ''. Please check the spelling.'', None), [req])
                                   | d # others \<Rightarrow>
                                       ((nl @ MarketDataEntry.Name d @ '' Market Overview:''
                                         @ nl @ ''----------------------'' @ nl
                                         @ ''Current Price: $''
                                         @ SprintfF2 L (MarketDataEntry.CurrentPrice d) @ nl
                                         @ ''Market Cap: $''
                                         @ SprintfF2 L (MarketDataEntry.MarketCap d) @ nl
                                         @ ''24h Change: ''
                                         @ SprintfF2 L (PriceChangePercentage24H d) @ ''%''
                                         @ nl @ ''Last Updated: ''
                                         @ FormatUnix L (LastUpdatedTimestamp d) @ nl,
                                         None), [req]))))))"

definition noCommand :: string where
  "noCommand = ''No command provided. Available commands: price [symbol], market [symbol]''"

definition unknownCommand2 :: "string \<Rightarrow> string" where
  "unknownCommand2 command =
     ''Unknown command '' @ [CHR 0x27] @ command @ [CHR 0x27]
     @ ''. Available commands: price [symbol], market [symbol]''"

definition ProcessTask2 :: "golib \<Rightarrow> world \<Rightarrow> string \<Rightarrow> outcome" where
  "ProcessTask2 L W task =
     (let task1 = TrimSpace L task;
          task2 = TrimPrefix task1 ''/'';
          taskLower = ToLower L task2;
          parts = Fields L taskLower
      in if length parts = 0 then ((noCommand, None), [])
         else
           (let command = parts ! 0;
                args = tl parts
            in if command = ''price'' then handlePriceCommand L W args
               else if command = ''market'' then handleMarketCommand L W args
               else ((unknownCommand2 command, None), [])))"

section \<open>What the specification says of the formatter's parse\<close>

text \<open>
  The specification describes the parse by its result: of the pieces between semicolons,
  those without a colon are dropped, the text before the first colon of a piece is its key
  and the text after it its value, and of several pieces with one key the last one counts.
  \<open>lastValue\<close> is that description, to be compared with the loop of the source.
  \<open>optionalLine\<close> is the specification's rule for an optional line: present and
  non-empty.
\<close>

definition hasColon :: "string \<Rightarrow> bool" where
  "hasColon seg = (CHR '':'' \<in> set seg)"

definition keyOf :: "string \<Rightarrow> string" where
  "keyOf seg = takeWhile (\<lambda>c. c \<noteq> CHR '':'') seg"

definition valueOf :: "string \<Rightarrow> string" where
  "valueOf seg = tl (dropWhile (\<lambda>c. c \<noteq> CHR '':'') seg)"

fun lastValue :: "string list \<Rightarrow> string \<Rightarrow> string option" where
  "lastValue [] k = None"
| "lastValue (seg # segs) k =
     (case lastValue segs k of
        Some v \<Rightarrow> Some v
      | None \<Rightarrow> (if hasColon seg \<and> keyOf seg = k then Some (valueOf seg) else None))"

definition optionalLine :: "string \<Rightarrow> string option \<Rightarrow> string" where
  "optionalLine label v =
     (case v of Some x \<Rightarrow> (if x \<noteq> [] then label @ x @ nl else []) | None \<Rightarrow> [])"

section \<open>Example library and worlds\<close>

text \<open>
  A small stand-in for the Go library, used where a theorem is run on a concrete input.
  Its string functions are the ASCII ones: the six ASCII white-space bytes, the letters
  \<open>A\<close>..\<open>Z\<close> and \<open>a\<close>..\<open>z\<close> (an ASCII letter changes case by its bit of weight 32), every
  other byte left alone; on ASCII text, which is all the examples use, they return what
  Go's functions return. It parses and prints the handful of numbers of the examples as Go
  does (a question mark stands for the print of any other number, and any other string is
  a syntax error for the parser), and it decodes a few named response bodies.
\<close>

definition asciiSpace :: "char \<Rightarrow> bool" where
  "asciiSpace c = (c \<in> {CHR 0x09, CHR 0x0A, CHR 0x0B, CHR 0x0C, CHR 0x0D, CHR 0x20})"

definition toLowerChar :: "char \<Rightarrow> char" where
  "toLowerChar c =
     (if 65 \<le> (of_char c :: nat) \<and> (of_char c :: nat) \<le> 90
      then (case c of Char b0 b1 b2 b3 b4 b5 b6 b7 \<Rightarrow> Char b0 b1 b2 b3 b4 True b6 b7)
      else c)"

definition toUpperChar :: "char \<Rightarrow> char" where
  "toUpperChar c =
     (if 97 \<le> (of_char c :: nat) \<and> (of_char c :: nat) \<le> 122
      then (case c of Char b0 b1 b2 b3 b4 b5 b6 b7 \<Rightarrow> Char b0 b1 b2 b3 b4 False b6 b7)
      else c)"

definition asciiToLower :: "string \<Rightarrow> string" where
  "asciiToLower s = map toLowerChar s"

definition asciiToUpper :: "string \<Rightarrow> string" where
  "asciiToUpper s = map toUpperChar s"

text \<open>On ASCII, title case is upper case.\<close>

definition asciiToTitle :: "string \<Rightarrow> string" where
  "asciiToTitle s = map toUpperChar s"

text \<open>The maximal runs of non-space bytes, in order. The first argument of \<open>fieldsFrom\<close>
  is the run being read.\<close>

fun fieldsFrom :: "string \<Rightarrow> string \<Rightarrow> string list" where
  "fieldsFrom cur [] = (if cur = [] then [] else [cur])"
| "fieldsFrom cur (c # cs) =
     (if asciiSpace c then (if cur = [] then fieldsFrom [] cs else cur # fieldsFrom [] cs)
      else fieldsFrom (cur @ [c]) cs)"

definition asciiFields :: "string \<Rightarrow> string list" where
  "asciiFields s = fieldsFrom [] s"

definition asciiTrimSpace :: "string \<Rightarrow> string" where
  "asciiTrimSpace s = rev (dropWhile asciiSpace (rev (dropWhile asciiSpace s)))"

definition exampleParseFloat :: "string \<Rightarrow> float64 \<times> error option" where
  "exampleParseFloat s =
     (if s = ''5.00'' then (Num 5, None)
      else if s = ''-3.20'' then (Num (- 16 / 5), None)
      else if s = ''1.5'' then (Num (3 / 2), None)
      else (Num 0, Some ''invalid syntax''))"

definition exampleCurrency :: "float64 \<Rightarrow> string" where
  "exampleCurrency x =
     (if x = Num 0 then ''$0.00''
      else if x = Num (3 / 2) then ''$1.50''
      else if x = Num 50000 then ''$50,000.00''
      else if x = Num 1000000 then ''$1,000,000.00''
      else ''$?'')"

definition exampleQuantity :: "float64 \<Rightarrow> string" where
  "exampleQuantity x = (if x = Num 21000000 then ''21,000,000'' else ''?'')"

definition exampleF2 :: "float64 \<Rightarrow> string" where
  "exampleF2 x =
     (if x = Num 5 then ''5.00''
      else if x = Num 0 then ''0.00''
      else if x = Num 50000 then ''50000.00''
      else if x = Num (- 16 / 5) then ''-3.20''
      else ''?'')"

definition exampleD :: "int \<Rightarrow> string" where
  "exampleD n = (if n = 404 then ''404'' else if n = 502 then ''502'' else ''?'')"

definition bitcoinCMC :: CMCData where
  "bitcoinCMC =
     \<lparr>CMCData.ID = 1, CMCData.Name = ''Bitcoin'', CMCData.Symbol = ''BTC'',
      CMCData.CirculatingSupply = Num 0, CMCData.TotalSupply = Num 21000000,
      Quote = \<lparr>USD = \<lparr>Price = Num 50000, Volume24h = Num 1000000,
                          CMCQuoteUSD.MarketCap = Num 1000000,
                          PercentChange24h = Num 5\<rparr>\<rparr>\<rparr>"

definition exampleDecodeCMC :: "string \<Rightarrow> error + CMCResponse" where
  "exampleDecodeCMC body =
     (if body = ''cmc: btc quote''
      then Inr \<lparr>Status = \<lparr>ErrorCode = 0, ErrorMessage = []\<rparr>,
                 Data = [''BTC'' \<mapsto> bitcoinCMC]\<rparr>
      else if body = ''cmc: invalid symbol''
      then Inr \<lparr>Status = \<lparr>ErrorCode = 400, ErrorMessage = ''Invalid value for symbol''\<rparr>,
                 Data = Map.empty\<rparr>
      else Inl ''invalid character'')"

definition exampleDecodeCoinGecko :: "string \<Rightarrow> error + CoinGeckoResponse" where
  "exampleDecodeCoinGecko body =
     (if body = ''coingecko: bitcoin''
      then Inr \<lparr>CoinGeckoResponse.ID = ''bitcoin'', CoinGeckoResponse.Symbol = ''btc'',
                 CoinGeckoResponse.Name = ''Bitcoin'',
                 MarketData =
                   \<lparr>CoinGeckoMarketData.CurrentPrice = [''usd'' \<mapsto> Num 50000],
                    PriceChangePercentage24h = Num 5,
                    CoinGeckoMarketData.MarketCap = [''usd'' \<mapsto> Num 1000000],
                    CoinGeckoMarketData.CirculatingSupply = Num 0,
                    CoinGeckoMarketData.TotalSupply = Num 21000000\<rparr>\<rparr>
      else Inl ''invalid character'')"

definition examplePair :: "string \<Rightarrow> DexPair" where
  "examplePair p =
     \<lparr>ChainID = ''ethereum'', PairAddress = ''0xpair'',
      BaseToken = \<lparr>Address = ''0xbase'', Token.Name = ''Pepe'', Token.Symbol = ''PEPE''\<rparr>,
      QuoteToken = \<lparr>Address = ''0xquote'', Token.Name = ''Ether'', Token.Symbol = ''WETH''\<rparr>,
      PriceUsd = p,
      Volume = \<lparr>H24 = Num 1000000, H6 = Num 0, H1 = Num 0, M5 = Num 0\<rparr>,
      FDV = Num 1000000\<rparr>"

definition exampleDecodeDexscreener :: "string \<Rightarrow> error + DexscreenerResponse" where
  "exampleDecodeDexscreener body =
     (if body = ''dex: no pairs'' then Inr \<lparr>Pairs = []\<rparr>
      else if body = ''dex: bad price'' then Inr \<lparr>Pairs = [examplePair ''abc'']\<rparr>
      else if body = ''dex: good then bad''
      then Inr \<lparr>Pairs = [examplePair ''1.5'', examplePair ''abc'']\<rparr>
      else Inl ''invalid character'')"

definition exampleDecodePrice :: "string \<Rightarrow> error + PriceResponse" where
  "exampleDecodePrice body =
     (if body = ''price: bitcoin'' then Inr [''bitcoin'' \<mapsto> [(''usd'', Num 50000)]]
      else Inl ''invalid character'')"

definition exampleDecodeMarketData :: "string \<Rightarrow> error + MarketDataResponse" where
  "exampleDecodeMarketData body =
     (if body = ''markets: none'' then Inr [] else Inl ''invalid character'')"

definition exampleLib :: golib where
  "exampleLib =
     \<lparr>ToLower = asciiToLower,
      ToUpper = asciiToUpper,
      ToTitle = asciiToTitle,
      Fields = asciiFields,
      TrimSpace = asciiTrimSpace,
      ParseFloat = exampleParseFloat,
      SprintfCurrency = exampleCurrency,
      SprintfQuantity = exampleQuantity,
      SprintfF2 = exampleF2,
      SprintfD = exampleD,
      NewRequest = (\<lambda>u. None),
      DecodeCoinGecko = exampleDecodeCoinGecko,
      DecodeCMC = exampleDecodeCMC,
      DecodeDexscreener = exampleDecodeDexscreener,
      DecodePrice = exampleDecodePrice,
      DecodeMarketData = exampleDecodeMarketData,
      FormatUnix = (\<lambda>t. ''1970-01-01 00:00:00 UTC'')\<rparr>"

text \<open>A world is given by the two API keys and by what each of the three hosts
  answers.\<close>

definition exampleWorld ::
  "string \<Rightarrow> string \<Rightarrow> error + response \<Rightarrow> error + response \<Rightarrow> error + response \<Rightarrow> world"
  where
  "exampleWorld cmcKey cgKey cmcAnswer cgAnswer dexAnswer =
     \<lparr>Getenv = (\<lambda>name. if name = ''CMC_API_KEY'' then cmcKey
                        else if name = ''COINGECKO_API_KEY'' then cgKey else []),
      Do = (\<lambda>req. if HasPrefix (url req) ''https://pro-api.coinmarketcap.com/'' then cmcAnswer
                   else if HasPrefix (url req) ''https://api.coingecko.com/'' then cgAnswer
                   else if HasPrefix (url req) ''https://api.dexscreener.com/'' then dexAnswer
                   else Inl ''no such host'')\<rparr>"

definition timeout :: "error + response" where
  "timeout = Inl ''context deadline exceeded''"

definition answer :: "int \<Rightarrow> string \<Rightarrow> error + response" where
  "answer code body = Inr \<lparr>StatusCode = code, Body = body\<rparr>"

definition exampleAddress :: string where
  "exampleAddress = ''0x6982508145454Ce325dDbE47a25d4ec3d2311933''"

section \<open>Lemmas\<close>

subsection \<open>Strings\<close>

text \<open>The case mappings are the ASCII ones: 32 up from \<open>A\<close>..\<open>Z\<close>, 32 down from
  \<open>a\<close>..\<open>z\<close>, and the identity elsewhere.\<close>

lemma of_char_toLowerChar:
  "(of_char (toLowerChar c) :: nat) =
     (if 65 \<le> (of_char c :: nat) \<and> (of_char c :: nat) \<le> 90 then of_char c + 32
      else of_char c)"
  by (cases c) (auto simp add: toLowerChar_def)

lemma of_char_toUpperChar:
  "(of_char (toUpperChar c) :: nat) =
     (if 97 \<le> (of_char c :: nat) \<and> (of_char c :: nat) \<le> 122 then of_char c - 32
      else of_char c)"
  by (cases c) (auto simp add: toUpperChar_def)

lemma HasPrefix_append: "HasPrefix (p @ s) p"
  by (simp add: HasPrefix_def)

lemma Contains_here: "Contains (sub @ b) sub"
  by (cases "sub @ b") (simp_all add: HasPrefix_def, metis append_eq_conv_conj)

lemma Contains_append: "Contains (a @ sub @ b) sub"
  by (induction a) (simp_all add: Contains_here)

lemma Split_nonempty: "Split s sep \<noteq> []"
  by (induction s) (auto split: list.splits)

lemma Split_append: "Split (a @ sep # b) sep = Split a sep @ Split b sep"
proof (induction a)
  case Nil
  show ?case by simp
next
  case (Cons c a)
  obtain x xs where "Split a sep = x # xs"
    using Split_nonempty [of a sep] by (cases "Split a sep") auto
  with Cons show ?case by simp
qed

lemma Split_no_sep: "sep \<notin> set s \<Longrightarrow> Split s sep = [s]"
  by (induction s) auto

subsection \<open>The ASCII tokenizer\<close>

text \<open>Trimming, removing one leading slash and lowercasing never add a token. Go's
  functions have this property too; it is proved here for the ASCII ones of the example
  library.\<close>

lemma fieldsFrom_length_cur:
  "cur \<noteq> [] \<Longrightarrow> cur' \<noteq> [] \<Longrightarrow> length (fieldsFrom cur s) = length (fieldsFrom cur' s)"
proof (induction s arbitrary: cur cur')
  case Nil
  then show ?case by simp
next
  case (Cons c s)
  have "length (fieldsFrom (cur @ [c]) s) = length (fieldsFrom (cur' @ [c]) s)"
    by (rule Cons.IH) simp_all
  with Cons.prems show ?case by simp
qed

lemma fieldsFrom_length_le: "length (fieldsFrom [] s) \<le> length (fieldsFrom cur s)"
proof (induction s arbitrary: cur)
  case Nil
  show ?case by simp
next
  case (Cons c s)
  show ?case
  proof (cases "asciiSpace c")
    case True
    then show ?thesis by simp
  next
    case False
    show ?thesis
    proof (cases "cur = []")
      case True
      then show ?thesis by simp
    next
      case nonempty: False
      have "length (fieldsFrom [c] s) = length (fieldsFrom (cur @ [c]) s)"
        by (rule fieldsFrom_length_cur) simp_all
      with False show ?thesis by simp
    qed
  qed
qed

lemma fieldsFrom_map:
  assumes "\<And>c. asciiSpace (f c) = asciiSpace c"
  shows "fieldsFrom (map f cur) (map f s) = map (map f) (fieldsFrom cur s)"
proof (induction s arbitrary: cur)
  case Nil
  show ?case by simp
next
  case (Cons c s)
  have a: "fieldsFrom [] (map f s) = map (map f) (fieldsFrom [] s)"
    using Cons.IH [of "[]"] by simp
  have b: "fieldsFrom (map f cur @ [f c]) (map f s) = map (map f) (fieldsFrom (cur @ [c]) s)"
    using Cons.IH [of "cur @ [c]"] by simp
  show ?case by (simp add: assms a b)
qed

lemma isSpace_toLowerChar: "asciiSpace (toLowerChar c) = asciiSpace c"
  by (cases c) (auto simp add: asciiSpace_def toLowerChar_def)

lemma Fields_ToLower: "asciiFields (asciiToLower s) = map asciiToLower (asciiFields s)"
  using fieldsFrom_map [of toLowerChar "[]" s]
  by (simp add: asciiFields_def asciiToLower_def isSpace_toLowerChar)

lemma Fields_dropWhile: "asciiFields (dropWhile asciiSpace s) = asciiFields s"
  by (induction s) (simp_all add: asciiFields_def)

lemma fieldsFrom_snoc_space: "asciiSpace c \<Longrightarrow> fieldsFrom cur (s @ [c]) = fieldsFrom cur s"
  by (induction s arbitrary: cur) auto

lemma Fields_dropWhile_end: "asciiFields (rev (dropWhile asciiSpace (rev s))) = asciiFields s"
  by (induction s rule: rev_induct) (simp_all add: asciiFields_def fieldsFrom_snoc_space)

lemma Fields_TrimSpace: "asciiFields (asciiTrimSpace s) = asciiFields s"
  by (simp add: asciiTrimSpace_def Fields_dropWhile_end Fields_dropWhile)

lemma Fields_slash: "length (asciiFields r) \<le> length (asciiFields (CHR ''/'' # r))"
proof -
  have "\<not> asciiSpace (CHR ''/'')" by (simp add: asciiSpace_def)
  then have "asciiFields (CHR ''/'' # r) = fieldsFrom ''/'' r" by (simp add: asciiFields_def)
  then show ?thesis using fieldsFrom_length_le [of r "''/''"] by (simp add: asciiFields_def)
qed

lemma Fields_TrimPrefix_slash: "length (asciiFields (TrimPrefix s ''/'')) \<le> length (asciiFields s)"
proof (cases s)
  case Nil
  then show ?thesis by (simp add: TrimPrefix_def)
next
  case (Cons c r)
  show ?thesis
  proof (cases "c = CHR ''/''")
    case True
    with Cons show ?thesis using Fields_slash [of r] by (simp add: TrimPrefix_def HasPrefix_def)
  next
    case False
    with Cons show ?thesis by (simp add: TrimPrefix_def HasPrefix_def)
  qed
qed

lemma commandLine_length:
  "length (asciiFields (asciiToLower (TrimPrefix (asciiTrimSpace s) ''/''))) \<le> length (asciiFields s)"
  using Fields_TrimPrefix_slash [of "asciiTrimSpace s"]
  by (simp add: Fields_ToLower Fields_TrimSpace)

subsection \<open>The parse\<close>

lemma parseLoop_lastValue:
  "parseLoop segs m k = (case lastValue segs k of Some v \<Rightarrow> Some v | None \<Rightarrow> m k)"
proof (induction segs arbitrary: m)
  case Nil
  show ?case by simp
next
  case (Cons seg segs)
  show ?case
    by (simp add: Cons.IH SplitN2_def hasColon_def keyOf_def valueOf_def Let_def
        split: option.splits)
qed

lemma parseParts_lastValue: "parseParts raw k = lastValue (Split raw (CHR '';'')) k"
  by (simp add: parseParts_def parseLoop_lastValue split: option.splits)

lemma lastValue_append:
  "lastValue (xs @ ys) k =
     (case lastValue ys k of Some v \<Rightarrow> Some v | None \<Rightarrow> lastValue xs k)"
  by (induction xs) (auto split: option.splits)

lemma lastValue_malformed:
  "\<not> hasColon seg \<Longrightarrow> lastValue (xs @ seg # ys) k = lastValue (xs @ ys) k"
  by (simp add: lastValue_append split: option.splits)

lemma lastValue_last:
  "hasColon seg \<Longrightarrow> lastValue (xs @ [seg]) (keyOf seg) = Some (valueOf seg)"
  by (simp add: lastValue_append)

lemma supply_not_available:
  assumes "CHR '';'' \<notin> set T"
  shows "parseParts (A @ '';circulating_supply:N/A;total_supply:'' @ T) ''circulating_supply''
           = Some ''N/A''"
proof -
  have "A @ '';circulating_supply:N/A;total_supply:'' @ T
          = A @ CHR '';'' # (''circulating_supply:N/A;total_supply:'' @ T)"
    by simp
  then have "Split (A @ '';circulating_supply:N/A;total_supply:'' @ T) (CHR '';'')
          = Split A (CHR '';'') @ Split (''circulating_supply:N/A;total_supply:'' @ T) (CHR '';'')"
    by (simp only: Split_append)
  moreover have "Split (''circulating_supply:N/A;total_supply:'' @ T) (CHR '';'')
          = [''circulating_supply:N/A'', ''total_supply:'' @ T]"
    using assms by (simp add: Split_no_sep)
  ultimately show ?thesis
    by (simp add: parseParts_lastValue lastValue_append hasColon_def keyOf_def valueOf_def)
qed

lemma supplyLine_not_available:
  assumes "CHR '';'' \<notin> set T"
  shows "supplyLine (parseParts (A @ '';circulating_supply:N/A;total_supply:'' @ T)) = []"
  unfolding supplyLine_def supply_not_available [OF assms] by simp

lemma formatOutput_pieces:
  "formatOutput L raw =
     headerLines (parseParts raw)
     @ changeLine L (getPart (parseParts raw) ''24h_change'')
     @ marketCapLine (parseParts raw) @ volumeLine (parseParts raw)
     @ fdvLine (parseParts raw) @ supplyLine (parseParts raw)
     @ footerLine L (parseParts raw)"
  by (simp add: formatOutput_def Let_def)

lemma parseLoop_append: "parseLoop (xs @ ys) m = parseLoop ys (parseLoop xs m)"
  by (induction xs arbitrary: m) (simp_all add: Let_def)

lemma parseLoop_malformed: "\<not> hasColon seg \<Longrightarrow> parseLoop (seg # ys) m = parseLoop ys m"
  by (simp add: SplitN2_def hasColon_def)


subsection \<open>The branches of the clients\<close>

lemma cmc_quote:
  assumes "NewRequest L cmcURL = None"
    and "Getenv W ''CMC_API_KEY'' \<noteq> []"
    and "Do W (cmcRequest L symbol (Getenv W ''CMC_API_KEY'')) = Inr resp"
    and "DecodeCMC L (Body resp) = Inr d"
    and "ErrorCode (Status d) = 0"
    and "Data d (ToUpper L symbol) = Some x"
  shows "getCMCData L W symbol =
           (((''token_source:coinmarketcap;current_price_usd:''
              @ formatCurrency L (Price (USD (Quote x)))
              @ '';24h_change:'' @ SprintfF2 L (PercentChange24h (USD (Quote x))) @ ''%''
              @ '';market_cap_usd:'' @ formatCurrency L (CMCQuoteUSD.MarketCap (USD (Quote x))))
             @ '';circulating_supply:'' @ formatQuantity L (CMCData.CirculatingSupply x)
             @ '';total_supply:'' @ formatQuantity L (CMCData.TotalSupply x), None),
            [cmcRequest L symbol (Getenv W ''CMC_API_KEY'')])"
  using assms by (simp add: getCMCData_def Let_def)

lemma coinGecko_quote:
  assumes "NewRequest L (coinGeckoURL coinID) = None"
    and "Do W (coinGeckoRequest (coinGeckoURL coinID) (Getenv W ''COINGECKO_API_KEY'')) = Inr resp"
    and "StatusCode resp = 200"
    and "DecodeCoinGecko L (Body resp) = Inr d"
  shows "getCoinGeckoData L W coinID =
           (((''token_source:coingecko;current_price_usd:''
              @ formatCurrency L (atKey (CoinGeckoMarketData.CurrentPrice (MarketData d)) ''usd'')
              @ '';current_price_eur:''
              @ formatCurrency L (atKey (CoinGeckoMarketData.CurrentPrice (MarketData d)) ''eur'')
              @ '';24h_change:'' @ SprintfF2 L (PriceChangePercentage24h (MarketData d)) @ ''%''
              @ '';market_cap_usd:''
              @ formatCurrency L (atKey (CoinGeckoMarketData.MarketCap (MarketData d)) ''usd''))
             @ '';circulating_supply:''
             @ formatQuantity L (CoinGeckoMarketData.CirculatingSupply (MarketData d))
             @ '';total_supply:''
             @ formatQuantity L (CoinGeckoMarketData.TotalSupply (MarketData d)), None),
            [coinGeckoRequest (coinGeckoURL coinID) (Getenv W ''COINGECKO_API_KEY'')])"
  using assms by (simp add: getCoinGeckoData_def Let_def)

subsection \<open>The requests a client sends\<close>

lemma coinGecko_sent:
  "snd (getCoinGeckoData L W coinID) =
     (if NewRequest L (coinGeckoURL coinID) = None
      then [coinGeckoRequest (coinGeckoURL coinID) (Getenv W ''COINGECKO_API_KEY'')] else [])"
  by (simp add: getCoinGeckoData_def Let_def split: option.splits sum.splits)

lemma cmc_sent:
  "snd (getCMCData L W symbol) =
     (if NewRequest L cmcURL = None \<and> Getenv W ''CMC_API_KEY'' \<noteq> []
      then [cmcRequest L symbol (Getenv W ''CMC_API_KEY'')] else [])"
  by (simp add: getCMCData_def Let_def split: option.splits sum.splits)

lemma dex_sent:
  "snd (getDexData L W a) = (if NewRequest L (dexURL a) = None then [dexRequest a] else [])"
  by (simp add: getDexData_def Let_def split: option.splits sum.splits list.splits)

lemma price_sent:
  "snd (handlePriceCommand L W args) =
     (if args \<noteq> [] \<and> NewRequest L (priceURL (getCoinID2 L (args ! 0))) = None
      then [coinGeckoRequest (priceURL (getCoinID2 L (args ! 0))) (Getenv W ''COINGECKO_API_KEY'')]
      else [])"
  by (simp add: handlePriceCommand_def Let_def split: option.splits sum.splits)

lemma market_sent:
  "snd (handleMarketCommand L W args) =
     (if args \<noteq> [] \<and> NewRequest L (marketURL (getCoinID2 L (args ! 0))) = None
      then [coinGeckoRequest (marketURL (getCoinID2 L (args ! 0))) (Getenv W ''COINGECKO_API_KEY'')]
      else [])"
  by (simp add: handleMarketCommand_def Let_def split: option.splits sum.splits list.splits)

subsection \<open>Transport failures\<close>

lemma coinGecko_transport:
  "NewRequest L (coinGeckoURL coinID) = None \<Longrightarrow>
   Do W (coinGeckoRequest (coinGeckoURL coinID) (Getenv W ''COINGECKO_API_KEY'')) = Inl err \<Longrightarrow>
   getCoinGeckoData L W coinID =
     ((''Error contacting CoinGecko API.'', Some err),
      [coinGeckoRequest (coinGeckoURL coinID) (Getenv W ''COINGECKO_API_KEY'')])"
  by (simp add: getCoinGeckoData_def Let_def)

lemma cmc_transport:
  "NewRequest L cmcURL = None \<Longrightarrow> Getenv W ''CMC_API_KEY'' \<noteq> [] \<Longrightarrow>
   Do W (cmcRequest L symbol (Getenv W ''CMC_API_KEY'')) = Inl err \<Longrightarrow>
   getCMCData L W symbol =
     ((''Error contacting CoinMarketCap API.'', Some err),
      [cmcRequest L symbol (Getenv W ''CMC_API_KEY'')])"
  by (simp add: getCMCData_def Let_def)

lemma dex_transport:
  "NewRequest L (dexURL a) = None \<Longrightarrow> Do W (dexRequest a) = Inl err \<Longrightarrow>
   getDexData L W a = (([], Some err), [dexRequest a])"
  by (simp add: getDexData_def Let_def)

subsection \<open>Status codes and decoding\<close>

lemma coinGecko_status:
  "NewRequest L (coinGeckoURL coinID) = None \<Longrightarrow>
   Do W (coinGeckoRequest (coinGeckoURL coinID) (Getenv W ''COINGECKO_API_KEY'')) = Inr resp \<Longrightarrow>
   StatusCode resp \<noteq> 200 \<Longrightarrow>
   getCoinGeckoData L W coinID =
     ((''Error: CoinGecko API returned status '' @ SprintfD L (StatusCode resp)
       @ ''. Could not find data for '' @ coinID @ ''.'', None),
      [coinGeckoRequest (coinGeckoURL coinID) (Getenv W ''COINGECKO_API_KEY'')])"
  by (simp add: getCoinGeckoData_def Let_def)

lemma coinGecko_decode:
  "NewRequest L (coinGeckoURL coinID) = None \<Longrightarrow>
   Do W (coinGeckoRequest (coinGeckoURL coinID) (Getenv W ''COINGECKO_API_KEY'')) = Inr resp \<Longrightarrow>
   StatusCode resp = 200 \<Longrightarrow> DecodeCoinGecko L (Body resp) = Inl err \<Longrightarrow>
   getCoinGeckoData L W coinID =
     ((''Error processing CG API response.'', Some err),
      [coinGeckoRequest (coinGeckoURL coinID) (Getenv W ''COINGECKO_API_KEY'')])"
  by (simp add: getCoinGeckoData_def Let_def)

lemma dex_status:
  "NewRequest L (dexURL a) = None \<Longrightarrow> Do W (dexRequest a) = Inr resp \<Longrightarrow>
   StatusCode resp \<noteq> 200 \<Longrightarrow>
   getDexData L W a =
     ((''Dexscreener Error: API returned status '' @ SprintfD L (StatusCode resp) @ ''.'', None),
      [dexRequest a])"
  by (simp add: getDexData_def Let_def)

lemma dex_decode:
  "NewRequest L (dexURL a) = None \<Longrightarrow> Do W (dexRequest a) = Inr resp \<Longrightarrow>
   StatusCode resp = 200 \<Longrightarrow> DecodeDexscreener L (Body resp) = Inl err \<Longrightarrow>
   getDexData L W a = ((''Error processing Dexscreener response.'', Some err), [dexRequest a])"
  by (simp add: getDexData_def Let_def)

lemma dex_no_pairs:
  "NewRequest L (dexURL a) = None \<Longrightarrow> Do W (dexRequest a) = Inr resp \<Longrightarrow>
   StatusCode resp = 200 \<Longrightarrow> DecodeDexscreener L (Body resp) = Inr d \<Longrightarrow> Pairs d = [] \<Longrightarrow>
   getDexData L W a =
     ((''Dexscreener found no pairs for that token address.'', None), [dexRequest a])"
  by (simp add: getDexData_def Let_def)

lemma dex_first_pair:
  "NewRequest L (dexURL a) = None \<Longrightarrow> Do W (dexRequest a) = Inr resp \<Longrightarrow>
   StatusCode resp = 200 \<Longrightarrow> DecodeDexscreener L (Body resp) = Inr d \<Longrightarrow>
   Pairs d = pair # others \<Longrightarrow>
   getDexData L W a =
     ((''token_source:dexscreener;chain_id:'' @ ChainID pair
       @ '';current_price_usd:'' @ formatCurrency L (fst (ParseFloat L (PriceUsd pair)))
       @ '';volume_24h:'' @ formatCurrency L (H24 (Volume pair))
       @ '';fdv:'' @ formatCurrency L (FDV pair)
       @ '';base_token:'' @ Token.Symbol (BaseToken pair), None), [dexRequest a])"
  by (simp add: getDexData_def Let_def)

lemma cmc_decode:
  "NewRequest L cmcURL = None \<Longrightarrow> Getenv W ''CMC_API_KEY'' \<noteq> [] \<Longrightarrow>
   Do W (cmcRequest L symbol (Getenv W ''CMC_API_KEY'')) = Inr resp \<Longrightarrow>
   DecodeCMC L (Body resp) = Inl err \<Longrightarrow>
   getCMCData L W symbol =
     ((''Error processing CMC API response.'', Some err),
      [cmcRequest L symbol (Getenv W ''CMC_API_KEY'')])"
  by (simp add: getCMCData_def Let_def)

lemma cmc_error_code:
  "NewRequest L cmcURL = None \<Longrightarrow> Getenv W ''CMC_API_KEY'' \<noteq> [] \<Longrightarrow>
   Do W (cmcRequest L symbol (Getenv W ''CMC_API_KEY'')) = Inr resp \<Longrightarrow>
   DecodeCMC L (Body resp) = Inr d \<Longrightarrow> ErrorCode (Status d) \<noteq> 0 \<Longrightarrow>
   getCMCData L W symbol =
     ((''CMC could not find market data'' @ '' for symbol: '' @ symbol
       @ ''. Error: '' @ ErrorMessage (Status d), None),
      [cmcRequest L symbol (Getenv W ''CMC_API_KEY'')])"
  by (simp add: getCMCData_def Let_def)

lemma cmc_no_data:
  "NewRequest L cmcURL = None \<Longrightarrow> Getenv W ''CMC_API_KEY'' \<noteq> [] \<Longrightarrow>
   Do W (cmcRequest L symbol (Getenv W ''CMC_API_KEY'')) = Inr resp \<Longrightarrow>
   DecodeCMC L (Body resp) = Inr d \<Longrightarrow> ErrorCode (Status d) = 0 \<Longrightarrow>
   Data d (ToUpper L symbol) = None \<Longrightarrow>
   getCMCData L W symbol =
     ((''CMC could not find market data'' @ '' for symbol: '' @ symbol
       @ ''. Try another symbol.'', None),
      [cmcRequest L symbol (Getenv W ''CMC_API_KEY'')])"
  by (simp add: getCMCData_def Let_def)

lemma cmc_no_key:
  "NewRequest L cmcURL = None \<Longrightarrow> Getenv W ''CMC_API_KEY'' = [] \<Longrightarrow>
   getCMCData L W symbol = ((''Error: CMC_API_KEY not found in .env file.'', None), [])"
  by (simp add: getCMCData_def Let_def)

text \<open>The CoinMarketCap client never reads the status code.\<close>

lemma cmc_ignores_status:
  "getCMCData L (W\<lparr>Do := \<lambda>req. map_sum id (\<lambda>resp. resp\<lparr>StatusCode := code\<rparr>) (Do W req)\<rparr>) symbol
     = getCMCData L W symbol"
  by (simp add: getCMCData_def Let_def split: option.splits sum.splits)

subsection \<open>The branches of the dispatcher\<close>

lemma ProcessTask_usage:
  "length (Fields L input) < 2 \<Longrightarrow> ProcessTask L W input = ((usageMessage, None), [])"
  by (simp add: ProcessTask_def)

lemma ProcessTask_unknown:
  "Fields L input = cmd # target # rest \<Longrightarrow>
   ToLower L cmd \<noteq> ''/price'' \<Longrightarrow> ToLower L cmd \<noteq> ''/market'' \<Longrightarrow>
   ProcessTask L W input = ((unknownCommand (ToLower L cmd), None), [])"
  by (simp add: ProcessTask_def)

lemma ProcessTask_dex:
  "Fields L input = cmd # target # rest \<Longrightarrow>
   ToLower L cmd = ''/price'' \<or> ToLower L cmd = ''/market'' \<Longrightarrow>
   HasPrefix (ToLower L (TrimSpace L target)) ''0x'' \<Longrightarrow>
   40 \<le> length (ToLower L (TrimSpace L target)) \<Longrightarrow>
   ProcessTask L W input =
     (case getDexData L W (ToLower L (TrimSpace L target)) of
        ((dexResponse, Some err), sent) \<Rightarrow> ((''Error fetching DEX data.'', Some err), sent)
      | ((dexResponse, None), sent) \<Rightarrow> ((formatOutput L dexResponse, None), sent))"
  by (auto simp add: ProcessTask_def Let_def)

lemma ProcessTask_ticker:
  "Fields L input = cmd # target # rest \<Longrightarrow>
   ToLower L cmd = ''/price'' \<or> ToLower L cmd = ''/market'' \<Longrightarrow>
   \<not> (HasPrefix (ToLower L (TrimSpace L target)) ''0x'' \<and> 40 \<le> length (ToLower L (TrimSpace L target))) \<Longrightarrow>
   ProcessTask L W input =
     (case getCMCData L W target of
        ((cmcResponse, cmcErr), sent1) \<Rightarrow>
          if cmcErr = None \<and> \<not> Contains cmcResponse ''CMC could not find market data''
          then ((formatOutput L cmcResponse, None), sent1)
          else (case getCoinGeckoData L W (getCoinID L target) of
                  ((cgResponse, cgErr), sent2) \<Rightarrow>
                    if cgErr = None \<and> \<not> Contains cgResponse ''Could not find data for''
                    then ((formatOutput L cgResponse, None), sent1 @ sent2)
                    else ((finalFailure target, None), sent1 @ sent2)))"
  by (auto simp add: ProcessTask_def Let_def split: prod.splits)

lemma ProcessTask_ticker_no_error:
  assumes "Fields L input = cmd # target # rest"
    and "ToLower L cmd = ''/price'' \<or> ToLower L cmd = ''/market''"
    and "\<not> (HasPrefix (ToLower L (TrimSpace L target)) ''0x'' \<and> 40 \<le> length (ToLower L (TrimSpace L target)))"
  shows "snd (fst (ProcessTask L W input)) = None"
  unfolding ProcessTask_ticker [OF assms] by (simp split: prod.splits)

subsection \<open>Evaluation of the examples\<close>

lemmas exampleDefs = exampleLib_def exampleWorld_def answer_def timeout_def HasPrefix_def
  exampleDecodeCMC_def exampleDecodeCoinGecko_def exampleDecodeDexscreener_def
  exampleParseFloat_def exampleCurrency_def exampleQuantity_def exampleF2_def exampleD_def
  examplePair_def exampleAddress_def bitcoinCMC_def

lemmas stringDefs = exampleLib_def asciiFields_def asciiSpace_def asciiToLower_def toLowerChar_def asciiToUpper_def
  toUpperChar_def asciiTrimSpace_def TrimPrefix_def

lemma dexURL_host:
  "\<not> HasPrefix (dexURL a) ''https://pro-api.coinmarketcap.com/''"
  "\<not> HasPrefix (dexURL a) ''https://api.coingecko.com/''"
  by (simp_all add: dexURL_def HasPrefix_def)

lemma cmc_marker: "Contains (''CMC could not find market data'' @ x) ''CMC could not find market data''"
  by (rule Contains_here)

lemma coinGecko_marker:
  "Contains (''Error: CoinGecko API returned status '' @ code @ ''. Could not find data for ''
             @ coinID @ ''.'') ''Could not find data for''"
proof -
  have "''Error: CoinGecko API returned status '' @ code @ ''. Could not find data for ''
          @ coinID @ ''.''
        = (''Error: CoinGecko API returned status '' @ code @ ''. '')
          @ ''Could not find data for'' @ ('' '' @ coinID @ ''.'')"
    by simp
  then show ?thesis by (simp only: Contains_append)
qed

lemma finalFailure_names:
  "Contains (finalFailure target) ''CoinMarketCap''"
  "Contains (finalFailure target) ''CoinGecko''"
proof -
  have "finalFailure target
        = (''Could not find market data for '' @ target @ '' on '') @ ''CoinMarketCap''
          @ ('' or CoinGecko. Please ensure the symbol is correct''
             @ '' or use a contract address for DEX listings.'')"
    by (simp add: finalFailure_def)
  then show "Contains (finalFailure target) ''CoinMarketCap''"
    by (simp only: Contains_append)
  have "finalFailure target
        = (''Could not find market data for '' @ target @ '' on CoinMarketCap or '')
          @ ''CoinGecko''
          @ (''. Please ensure the symbol is correct''
             @ '' or use a contract address for DEX listings.'')"
    by (simp add: finalFailure_def)
  then show "Contains (finalFailure target) ''CoinGecko''"
    by (simp only: Contains_append)
qed

lemma ProcessTask_ticker_unreachable:
  assumes "Fields L input = cmd # target # rest"
    and "ToLower L cmd = ''/price'' \<or> ToLower L cmd = ''/market''"
    and "\<not> (HasPrefix (ToLower L (TrimSpace L target)) ''0x''
            \<and> 40 \<le> length (ToLower L (TrimSpace L target)))"
    and "NewRequest L cmcURL = None" and "Getenv W ''CMC_API_KEY'' \<noteq> []"
    and "Do W (cmcRequest L target (Getenv W ''CMC_API_KEY'')) = Inl err"
    and "NewRequest L (coinGeckoURL (getCoinID L target)) = None"
    and "Do W (coinGeckoRequest (coinGeckoURL (getCoinID L target))
               (Getenv W ''COINGECKO_API_KEY'')) = Inl err'"
  shows "ProcessTask L W input =
           ((finalFailure target, None),
            [cmcRequest L target (Getenv W ''CMC_API_KEY''),
             coinGeckoRequest (coinGeckoURL (getCoinID L target)) (Getenv W ''COINGECKO_API_KEY'')])"
  unfolding ProcessTask_ticker [OF assms(1-3)] cmc_transport [OF assms(4-6)]
    coinGecko_transport [OF assms(7,8)]
  by simp

lemma ProcessTask_ticker_cmc_unreachable:
  assumes "Fields L input = cmd # target # rest"
    and "ToLower L cmd = ''/price'' \<or> ToLower L cmd = ''/market''"
    and "\<not> (HasPrefix (ToLower L (TrimSpace L target)) ''0x''
            \<and> 40 \<le> length (ToLower L (TrimSpace L target)))"
    and "NewRequest L cmcURL = None" and "Getenv W ''CMC_API_KEY'' \<noteq> []"
    and "Do W (cmcRequest L target (Getenv W ''CMC_API_KEY'')) = Inl err"
    and "getCoinGeckoData L W (getCoinID L target) = ((r2, e2), s2)"
  shows "ProcessTask L W input =
           ((if e2 = None \<and> \<not> Contains r2 ''Could not find data for''
             then formatOutput L r2 else finalFailure target, None),
            cmcRequest L target (Getenv W ''CMC_API_KEY'') # s2)"
  unfolding ProcessTask_ticker [OF assms(1-3)] cmc_transport [OF assms(4-6)] assms(7)
  by simp

lemma ProcessTask_dex_unreachable:
  assumes "Fields L input = cmd # target # rest"
    and "ToLower L cmd = ''/price'' \<or> ToLower L cmd = ''/market''"
    and "HasPrefix (ToLower L (TrimSpace L target)) ''0x''"
    and "40 \<le> length (ToLower L (TrimSpace L target))"
    and "NewRequest L (dexURL (ToLower L (TrimSpace L target))) = None"
    and "Do W (dexRequest (ToLower L (TrimSpace L target))) = Inl err"
  shows "ProcessTask L W input =
           ((''Error fetching DEX data.'', Some err), [dexRequest (ToLower L (TrimSpace L target))])"
  unfolding ProcessTask_dex [OF assms(1-4)] dex_transport [OF assms(5,6)] by simp

subsection \<open>The single-provider dispatcher\<close>

lemma ProcessTask2_no_command:
  "Fields L (ToLower L (TrimPrefix (TrimSpace L input) ''/'')) = [] \<Longrightarrow>
   ProcessTask2 L W input = ((noCommand, None), [])"
  by (simp add: ProcessTask2_def)

lemma ProcessTask2_unknown:
  "Fields L (ToLower L (TrimPrefix (TrimSpace L input) ''/'')) = command # args \<Longrightarrow>
   command \<noteq> ''price'' \<Longrightarrow> command \<noteq> ''market'' \<Longrightarrow>
   ProcessTask2 L W input = ((unknownCommand2 command, None), [])"
  by (simp add: ProcessTask2_def)

lemma ProcessTask2_price:
  "Fields L (ToLower L (TrimPrefix (TrimSpace L input) ''/'')) = ''price'' # args \<Longrightarrow>
   ProcessTask2 L W input = handlePriceCommand L W args"
  by (simp add: ProcessTask2_def)

lemma ProcessTask2_market:
  "Fields L (ToLower L (TrimPrefix (TrimSpace L input) ''/'')) = ''market'' # args \<Longrightarrow>
   ProcessTask2 L W input = handleMarketCommand L W args"
  by (simp add: ProcessTask2_def)

lemma handlePriceCommand_no_args:
  "handlePriceCommand L W [] =
     ((''Please specify a cryptocurrency symbol (e.g., price bitcoin)'', None), [])"
  by (simp add: handlePriceCommand_def)

lemma handleMarketCommand_no_args:
  "handleMarketCommand L W [] =
     ((''Please specify a cryptocurrency symbol (e.g., market ethereum)'', None), [])"
  by (simp add: handleMarketCommand_def)

lemma ProcessTask2_short:
  assumes short: "length (Fields L (ToLower L (TrimPrefix (TrimSpace L input) ''/''))) < 2"
  shows "snd (ProcessTask2 L W input) = [] \<and> snd (fst (ProcessTask2 L W input)) = None"
proof -
  let ?parts = "Fields L (ToLower L (TrimPrefix (TrimSpace L input) ''/''))"
  show ?thesis
  proof (cases ?parts)
    case Nil
    then show ?thesis by (simp add: ProcessTask2_no_command)
  next
    case (Cons command args)
    with short have args: "args = []" by simp
    consider "command = ''price''" | "command = ''market''"
      | "command \<noteq> ''price''" "command \<noteq> ''market''"
      by blast
    then show ?thesis
    proof cases
      case 1
      with Cons args show ?thesis
        by (simp add: ProcessTask2_price handlePriceCommand_no_args)
    next
      case 2
      with Cons args show ?thesis
        by (simp add: ProcessTask2_market handleMarketCommand_no_args)
    next
      case 3
      with Cons show ?thesis
        by (simp add: ProcessTask2_unknown)
    qed
  qed
qed

section \<open>The claims\<close>

text \<open>
  Claim C1, as the code has it. For a ticker (a second token that, trimmed and lowercased
  by the library, is not address-shaped)
  the dispatcher calls the CoinMarketCap client first; that client sends its one request
  when \<open>CMC_API_KEY\<close> is set. The CoinGecko client is called, with the ticker translated by
  \<open>getCoinID\<close>, if and only if the CoinMarketCap client returned an error value (a
  transport or a decoding failure) or a text containing \<open>CMC could not find market data\<close>,
  which is what it returns when the provider answers with an error code or without data
  for the symbol. If CoinGecko in turn returns an error or a text containing
  \<open>Could not find data for\<close> (what it returns at a status other than 200), the result is the
  final message, which names both providers, with a nil error. The requests sent are
  those of the first client followed by those of the second.
\<close>

theorem ticker_fallback:
  assumes "Fields L input = cmd # target # rest"
    and "ToLower L cmd = ''/price'' \<or> ToLower L cmd = ''/market''"
    and "\<not> (HasPrefix (ToLower L (TrimSpace L target)) ''0x''
            \<and> 40 \<le> length (ToLower L (TrimSpace L target)))"
    and "getCMCData L W target = ((r1, e1), s1)"
    and "getCoinGeckoData L W (getCoinID L target) = ((r2, e2), s2)"
  shows "s1 = (if NewRequest L cmcURL = None \<and> Getenv W ''CMC_API_KEY'' \<noteq> []
               then [cmcRequest L target (Getenv W ''CMC_API_KEY'')] else [])
       \<and> s2 = (if NewRequest L (coinGeckoURL (getCoinID L target)) = None
                then [coinGeckoRequest (coinGeckoURL (getCoinID L target))
                        (Getenv W ''COINGECKO_API_KEY'')]
                else [])
       \<and> (e1 = None \<and> \<not> Contains r1 ''CMC could not find market data'' \<longrightarrow>
             ProcessTask L W input = ((formatOutput L r1, None), s1))
       \<and> ((e1 \<noteq> None \<or> Contains r1 ''CMC could not find market data'')
            \<and> e2 = None \<and> \<not> Contains r2 ''Could not find data for'' \<longrightarrow>
             ProcessTask L W input = ((formatOutput L r2, None), s1 @ s2))
       \<and> ((e1 \<noteq> None \<or> Contains r1 ''CMC could not find market data'')
            \<and> (e2 \<noteq> None \<or> Contains r2 ''Could not find data for'') \<longrightarrow>
             ProcessTask L W input = ((finalFailure target, None), s1 @ s2))
       \<and> Contains (finalFailure target) ''CoinMarketCap''
       \<and> Contains (finalFailure target) ''CoinGecko''
       \<and> (\<forall>resp d. NewRequest L cmcURL = None \<and> Getenv W ''CMC_API_KEY'' \<noteq> []
             \<and> Do W (cmcRequest L target (Getenv W ''CMC_API_KEY'')) = Inr resp
             \<and> DecodeCMC L (Body resp) = Inr d
             \<and> (ErrorCode (Status d) \<noteq> 0 \<or> Data d (ToUpper L target) = None) \<longrightarrow>
             e1 = None \<and> Contains r1 ''CMC could not find market data'')
       \<and> (\<forall>err. NewRequest L cmcURL = None \<and> Getenv W ''CMC_API_KEY'' \<noteq> []
             \<and> Do W (cmcRequest L target (Getenv W ''CMC_API_KEY'')) = Inl err \<longrightarrow>
             e1 = Some err)
       \<and> (\<forall>resp. NewRequest L (coinGeckoURL (getCoinID L target)) = None
             \<and> Do W (coinGeckoRequest (coinGeckoURL (getCoinID L target))
                       (Getenv W ''COINGECKO_API_KEY'')) = Inr resp
             \<and> StatusCode resp \<noteq> 200 \<longrightarrow>
             e2 = None \<and> Contains r2 ''Could not find data for'')"
proof -
  note pt = ProcessTask_ticker [OF assms(1-3), of W]
  have 1: "s1 = (if NewRequest L cmcURL = None \<and> Getenv W ''CMC_API_KEY'' \<noteq> []
               then [cmcRequest L target (Getenv W ''CMC_API_KEY'')] else [])"
    using cmc_sent [of L W target] assms(4) by simp
  have 2: "s2 = (if NewRequest L (coinGeckoURL (getCoinID L target)) = None
                then [coinGeckoRequest (coinGeckoURL (getCoinID L target))
                        (Getenv W ''COINGECKO_API_KEY'')]
                else [])"
    using coinGecko_sent [of L W "getCoinID L target"] assms(5) by simp
  have 3: "e1 = None \<and> \<not> Contains r1 ''CMC could not find market data'' \<longrightarrow>
             ProcessTask L W input = ((formatOutput L r1, None), s1)"
    unfolding pt assms(4) by simp
  have 4: "(e1 \<noteq> None \<or> Contains r1 ''CMC could not find market data'')
            \<and> e2 = None \<and> \<not> Contains r2 ''Could not find data for'' \<longrightarrow>
             ProcessTask L W input = ((formatOutput L r2, None), s1 @ s2)"
    unfolding pt assms(4) assms(5) by auto
  have 5: "(e1 \<noteq> None \<or> Contains r1 ''CMC could not find market data'')
            \<and> (e2 \<noteq> None \<or> Contains r2 ''Could not find data for'') \<longrightarrow>
             ProcessTask L W input = ((finalFailure target, None), s1 @ s2)"
    unfolding pt assms(4) assms(5) by auto
  have 6: "\<forall>resp d. NewRequest L cmcURL = None \<and> Getenv W ''CMC_API_KEY'' \<noteq> []
             \<and> Do W (cmcRequest L target (Getenv W ''CMC_API_KEY'')) = Inr resp
             \<and> DecodeCMC L (Body resp) = Inr d
             \<and> (ErrorCode (Status d) \<noteq> 0 \<or> Data d (ToUpper L target) = None) \<longrightarrow>
             e1 = None \<and> Contains r1 ''CMC could not find market data''"
  proof (intro allI impI)
    fix resp d
    assume h: "NewRequest L cmcURL = None \<and> Getenv W ''CMC_API_KEY'' \<noteq> []
             \<and> Do W (cmcRequest L target (Getenv W ''CMC_API_KEY'')) = Inr resp
             \<and> DecodeCMC L (Body resp) = Inr d
             \<and> (ErrorCode (Status d) \<noteq> 0 \<or> Data d (ToUpper L target) = None)"
    show "e1 = None \<and> Contains r1 ''CMC could not find market data''"
    proof (cases "ErrorCode (Status d) = 0")
      case True
      with h have "getCMCData L W target =
          ((''CMC could not find market data'' @ '' for symbol: '' @ target
            @ ''. Try another symbol.'', None), [cmcRequest L target (Getenv W ''CMC_API_KEY'')])"
        by (intro cmc_no_data [of L W target resp d]) simp_all
      with assms(4) show ?thesis by (auto simp only: cmc_marker prod.inject)
    next
      case False
      with h have "getCMCData L W target =
          ((''CMC could not find market data'' @ '' for symbol: '' @ target
            @ ''. Error: '' @ ErrorMessage (Status d), None),
           [cmcRequest L target (Getenv W ''CMC_API_KEY'')])"
        by (intro cmc_error_code [of L W target resp d]) simp_all
      with assms(4) show ?thesis by (auto simp only: cmc_marker prod.inject)
    qed
  qed
  have 7: "\<forall>err. NewRequest L cmcURL = None \<and> Getenv W ''CMC_API_KEY'' \<noteq> []
             \<and> Do W (cmcRequest L target (Getenv W ''CMC_API_KEY'')) = Inl err \<longrightarrow>
             e1 = Some err"
    using assms(4) by (auto simp add: cmc_transport)
  have 8: "\<forall>resp. NewRequest L (coinGeckoURL (getCoinID L target)) = None
             \<and> Do W (coinGeckoRequest (coinGeckoURL (getCoinID L target))
                       (Getenv W ''COINGECKO_API_KEY'')) = Inr resp
             \<and> StatusCode resp \<noteq> 200 \<longrightarrow>
             e2 = None \<and> Contains r2 ''Could not find data for''"
  proof (intro allI impI)
    fix resp
    assume h: "NewRequest L (coinGeckoURL (getCoinID L target)) = None
             \<and> Do W (coinGeckoRequest (coinGeckoURL (getCoinID L target))
                       (Getenv W ''COINGECKO_API_KEY'')) = Inr resp
             \<and> StatusCode resp \<noteq> 200"
    then have "getCoinGeckoData L W (getCoinID L target) =
     ((''Error: CoinGecko API returned status '' @ SprintfD L (StatusCode resp)
       @ ''. Could not find data for '' @ getCoinID L target @ ''.'', None),
      [coinGeckoRequest (coinGeckoURL (getCoinID L target)) (Getenv W ''COINGECKO_API_KEY'')])"
      by (intro coinGecko_status) simp_all
    with assms(5) show "e2 = None \<and> Contains r2 ''Could not find data for''"
      by (auto simp only: coinGecko_marker prod.inject)
  qed
  from 1 2 3 4 5 6 7 8 finalFailure_names [of target] show ?thesis by blast
qed

theorem ticker_fallback_witness:
  "ProcessTask exampleLib
     (exampleWorld ''key'' [] (answer 200 ''cmc: invalid symbol'') (answer 404 []) timeout)
     ''/price btc''
   = ((finalFailure ''btc'', None),
      [cmcRequest exampleLib ''btc'' ''key'', coinGeckoRequest (coinGeckoURL ''bitcoin'') []])"
proof -
  let ?W = "exampleWorld ''key'' [] (answer 200 ''cmc: invalid symbol'') (answer 404 []) timeout"
  have 1: "Fields exampleLib ''/price btc'' = ''/price'' # ''btc'' # []"
    by (simp add: stringDefs)
  have 2: "ToLower exampleLib ''/price'' = ''/price'' \<or> ToLower exampleLib ''/price'' = ''/market''"
    by (simp add: stringDefs)
  have 3: "\<not> (HasPrefix (ToLower exampleLib (TrimSpace exampleLib ''btc'')) ''0x''
            \<and> 40 \<le> length (ToLower exampleLib (TrimSpace exampleLib ''btc'')))"
    by (simp add: stringDefs HasPrefix_def)
  have 4: "getCMCData exampleLib ?W ''btc''
      = ((''CMC could not find market data for symbol: btc. Error: Invalid value for symbol'',
          None), [cmcRequest exampleLib ''btc'' ''key''])"
    by (simp add: exampleDefs getCMCData_def cmcURL_def cmcRequest_def Let_def)
  have 5: "getCoinGeckoData exampleLib ?W (getCoinID exampleLib ''btc'')
      = ((''Error: CoinGecko API returned status 404. Could not find data for bitcoin.'', None),
         [coinGeckoRequest (coinGeckoURL ''bitcoin'') []])"
    by (simp add: exampleDefs getCoinGeckoData_def coinGeckoURL_def coinGeckoRequest_def
        Let_def getCoinID_def coinIDMap_def stringDefs)
  have 6: "Contains ''CMC could not find market data for symbol: btc. Error: Invalid value for symbol''
             ''CMC could not find market data''"
    by (simp add: HasPrefix_def)
  have 7: "Contains ''Error: CoinGecko API returned status 404. Could not find data for bitcoin.''
             ''Could not find data for''"
    by (simp add: HasPrefix_def)
  from ticker_fallback [OF 1 2 3 4 5] 6 7
  have "ProcessTask exampleLib ?W ''/price btc''
      = ((finalFailure ''btc'', None),
         [cmcRequest exampleLib ''btc'' ''key''] @ [coinGeckoRequest (coinGeckoURL ''bitcoin'') []])"
    by blast
  then show ?thesis by simp
qed

text \<open>
  The claim as stated has the fall-through only at a definitive not-found answer. Here
  CoinMarketCap cannot be reached: its client returns a transport error and no not-found
  text, and CoinGecko is queried all the same.
\<close>

theorem fallback_after_transport_error:
  "getCMCData exampleLib
     (exampleWorld ''key'' [] timeout (answer 200 ''coingecko: bitcoin'') timeout) ''btc''
   = ((''Error contacting CoinMarketCap API.'', Some ''context deadline exceeded''),
      [cmcRequest exampleLib ''btc'' ''key''])
   \<and> \<not> Contains ''Error contacting CoinMarketCap API.'' ''CMC could not find market data''
   \<and> snd (ProcessTask exampleLib
        (exampleWorld ''key'' [] timeout (answer 200 ''coingecko: bitcoin'') timeout) ''/price btc'')
     = [cmcRequest exampleLib ''btc'' ''key'', coinGeckoRequest (coinGeckoURL ''bitcoin'') []]"
proof -
  let ?W = "exampleWorld ''key'' [] timeout (answer 200 ''coingecko: bitcoin'') timeout"
  have 1: "Fields exampleLib ''/price btc'' = ''/price'' # ''btc'' # []"
    by (simp add: stringDefs)
  have 2: "ToLower exampleLib ''/price'' = ''/price'' \<or> ToLower exampleLib ''/price'' = ''/market''"
    by (simp add: stringDefs)
  have 3: "\<not> (HasPrefix (ToLower exampleLib (TrimSpace exampleLib ''btc'')) ''0x''
            \<and> 40 \<le> length (ToLower exampleLib (TrimSpace exampleLib ''btc'')))"
    by (simp add: stringDefs HasPrefix_def)
  have 4: "getCMCData exampleLib ?W ''btc''
      = ((''Error contacting CoinMarketCap API.'', Some ''context deadline exceeded''),
         [cmcRequest exampleLib ''btc'' ''key''])"
    by (simp add: exampleDefs getCMCData_def cmcURL_def cmcRequest_def Let_def)
  have 5: "snd (getCoinGeckoData exampleLib ?W (getCoinID exampleLib ''btc''))
      = [coinGeckoRequest (coinGeckoURL ''bitcoin'') []]"
    by (simp add: coinGecko_sent exampleDefs getCoinID_def coinIDMap_def stringDefs)
  have 6: "\<not> Contains ''Error contacting CoinMarketCap API.'' ''CMC could not find market data''"
    by (simp add: HasPrefix_def)
  obtain r2 e2 s2 where g: "getCoinGeckoData exampleLib ?W (getCoinID exampleLib ''btc'') = ((r2, e2), s2)"
    by (metis surj_pair)
  with 5 have s2: "s2 = [coinGeckoRequest (coinGeckoURL ''bitcoin'') []]"
    by simp
  have "snd (ProcessTask exampleLib ?W ''/price btc'')
      = [cmcRequest exampleLib ''btc'' ''key'', coinGeckoRequest (coinGeckoURL ''bitcoin'') []]"
    unfolding ProcessTask_ticker [OF 1 2 3] 4 g s2 by simp
  with 4 6 show ?thesis by simp
qed

text \<open>
  Claim C2. When the second token, trimmed and lowercased by the library, starts with
  \<open>0x\<close> and has at least 40 bytes, every request of the task is the one to Dexscreener for that address:
  none goes to the host of CoinMarketCap or of CoinGecko, whatever the first token and
  whatever Dexscreener answers. When the first token is a command, that request is sent
  (unless its URL is refused) and the result is \<open>formatOutput\<close> of what the Dexscreener
  client returned, also when that is the text that no pairs were found; when the client
  returns an error instead, the result is \<open>Error fetching DEX data.\<close> with that error,
  still with no fallback.
\<close>

theorem dex_branch_exclusive:
  assumes "Fields L input = cmd # target # rest"
    and "clean = ToLower L (TrimSpace L target)"
    and "HasPrefix clean ''0x''"
    and "40 \<le> length clean"
  shows "(\<forall>r \<in> set (snd (ProcessTask L W input)).
             r = dexRequest clean
             \<and> \<not> HasPrefix (url r) ''https://pro-api.coinmarketcap.com/''
             \<and> \<not> HasPrefix (url r) ''https://api.coingecko.com/'')
       \<and> (ToLower L cmd = ''/price'' \<or> ToLower L cmd = ''/market'' \<longrightarrow>
            snd (ProcessTask L W input)
              = (if NewRequest L (dexURL clean) = None then [dexRequest clean] else [])
            \<and> (\<forall>r s. getDexData L W clean = ((r, None), s) \<longrightarrow>
                  ProcessTask L W input = ((formatOutput L r, None), s))
            \<and> (\<forall>r err s. getDexData L W clean = ((r, Some err), s) \<longrightarrow>
                  ProcessTask L W input = ((''Error fetching DEX data.'', Some err), s))
            \<and> (\<forall>resp d. NewRequest L (dexURL clean) = None
                  \<and> Do W (dexRequest clean) = Inr resp \<and> StatusCode resp = 200
                  \<and> DecodeDexscreener L (Body resp) = Inr d \<and> Pairs d = [] \<longrightarrow>
                  ProcessTask L W input =
                    ((formatOutput L ''Dexscreener found no pairs for that token address.'',
                      None), [dexRequest clean])))"
proof (cases "ToLower L cmd = ''/price'' \<or> ToLower L cmd = ''/market''")
  case False
  then have "ProcessTask L W input = ((unknownCommand (ToLower L cmd), None), [])"
    using assms(1) ProcessTask_unknown [of L input cmd target rest W] by simp
  with False show ?thesis by simp
next
  case True
  have pt: "ProcessTask L W input =
     (case getDexData L W clean of
        ((dexResponse, Some err), sent) \<Rightarrow> ((''Error fetching DEX data.'', Some err), sent)
      | ((dexResponse, None), sent) \<Rightarrow> ((formatOutput L dexResponse, None), sent))"
    using assms True ProcessTask_dex [of L input cmd target rest W] by simp
  have sent: "snd (ProcessTask L W input) = snd (getDexData L W clean)"
    unfolding pt by (simp split: prod.splits option.splits)
  have 1: "snd (ProcessTask L W input)
           = (if NewRequest L (dexURL clean) = None then [dexRequest clean] else [])"
    unfolding sent by (rule dex_sent)
  have 2: "\<forall>r \<in> set (snd (ProcessTask L W input)).
             r = dexRequest clean
             \<and> \<not> HasPrefix (url r) ''https://pro-api.coinmarketcap.com/''
             \<and> \<not> HasPrefix (url r) ''https://api.coingecko.com/''"
    unfolding 1 by (simp add: dexRequest_def dexURL_host)
  have 3: "\<forall>r s. getDexData L W clean = ((r, None), s) \<longrightarrow>
             ProcessTask L W input = ((formatOutput L r, None), s)"
    unfolding pt by simp
  have 4: "\<forall>r err s. getDexData L W clean = ((r, Some err), s) \<longrightarrow>
             ProcessTask L W input = ((''Error fetching DEX data.'', Some err), s)"
    unfolding pt by simp
  have 5: "\<forall>resp d. NewRequest L (dexURL clean) = None \<and> Do W (dexRequest clean) = Inr resp
             \<and> StatusCode resp = 200 \<and> DecodeDexscreener L (Body resp) = Inr d \<and> Pairs d = [] \<longrightarrow>
             ProcessTask L W input =
               ((formatOutput L ''Dexscreener found no pairs for that token address.'', None),
                [dexRequest clean])"
    unfolding pt by (auto simp add: dex_no_pairs)
  from 1 2 3 4 5 show ?thesis by blast
qed

theorem dex_branch_exclusive_witness:
  "ProcessTask exampleLib (exampleWorld ''key'' ''key2'' timeout timeout (answer 200 ''dex: no pairs''))
     (''/price '' @ exampleAddress)
   = ((formatOutput exampleLib ''Dexscreener found no pairs for that token address.'', None),
      [dexRequest (ToLower exampleLib exampleAddress)])"
  using dex_branch_exclusive [where L = exampleLib
      and W = "exampleWorld ''key'' ''key2'' timeout timeout (answer 200 ''dex: no pairs'')"
      and input = "''/price '' @ exampleAddress" and cmd = "''/price''"
      and target = exampleAddress and rest = "[]" and clean = "ToLower exampleLib exampleAddress",
      THEN conjunct2, rule_format, THEN conjunct2, THEN conjunct2, THEN conjunct2, rule_format,
      of "\<lparr>StatusCode = 200, Body = ''dex: no pairs''\<rparr>" "\<lparr>Pairs = []\<rparr>"]
  by (simp add: exampleDefs stringDefs dexURL_def dexRequest_def)

text \<open>
  Claim C3, as the code has it. At a transport failure each client returns a non-nil
  error: CoinGecko and CoinMarketCap with an \<open>Error contacting ... API.\<close> text,
  Dexscreener with an empty text. \<open>ProcessTask\<close> passes the error on for an address only,
  as \<open>Error fetching DEX data.\<close>; for a ticker its error is always nil: a transport failure
  of CoinMarketCap makes it fall through to CoinGecko and return what CoinGecko gives (its
  quote, or the final not-found message), after the request to CoinMarketCap and those of
  the CoinGecko client; and when CoinGecko cannot be reached either the result is the
  final not-found message with a nil error.
\<close>

theorem transport_errors:
  "(\<forall>err. NewRequest L (coinGeckoURL coinID) = None
       \<and> Do W (coinGeckoRequest (coinGeckoURL coinID) (Getenv W ''COINGECKO_API_KEY'')) = Inl err
       \<longrightarrow> getCoinGeckoData L W coinID =
             ((''Error contacting CoinGecko API.'', Some err),
              [coinGeckoRequest (coinGeckoURL coinID) (Getenv W ''COINGECKO_API_KEY'')]))
   \<and> (\<forall>err. NewRequest L cmcURL = None \<and> Getenv W ''CMC_API_KEY'' \<noteq> []
       \<and> Do W (cmcRequest L symbol (Getenv W ''CMC_API_KEY'')) = Inl err
       \<longrightarrow> getCMCData L W symbol =
             ((''Error contacting CoinMarketCap API.'', Some err),
              [cmcRequest L symbol (Getenv W ''CMC_API_KEY'')]))
   \<and> (\<forall>err. NewRequest L (dexURL a) = None \<and> Do W (dexRequest a) = Inl err
       \<longrightarrow> getDexData L W a = (([], Some err), [dexRequest a]))
   \<and> (\<forall>cmd target rest err. Fields L input = cmd # target # rest
       \<and> (ToLower L cmd = ''/price'' \<or> ToLower L cmd = ''/market'')
       \<and> HasPrefix (ToLower L (TrimSpace L target)) ''0x''
       \<and> 40 \<le> length (ToLower L (TrimSpace L target))
       \<and> NewRequest L (dexURL (ToLower L (TrimSpace L target))) = None
       \<and> Do W (dexRequest (ToLower L (TrimSpace L target))) = Inl err
       \<longrightarrow> ProcessTask L W input =
             ((''Error fetching DEX data.'', Some err),
              [dexRequest (ToLower L (TrimSpace L target))]))
   \<and> (\<forall>cmd target rest. Fields L input = cmd # target # rest
       \<and> (ToLower L cmd = ''/price'' \<or> ToLower L cmd = ''/market'')
       \<and> \<not> (HasPrefix (ToLower L (TrimSpace L target)) ''0x''
              \<and> 40 \<le> length (ToLower L (TrimSpace L target)))
       \<longrightarrow> snd (fst (ProcessTask L W input)) = None)
   \<and> (\<forall>cmd target rest err err'. Fields L input = cmd # target # rest
       \<and> (ToLower L cmd = ''/price'' \<or> ToLower L cmd = ''/market'')
       \<and> \<not> (HasPrefix (ToLower L (TrimSpace L target)) ''0x''
              \<and> 40 \<le> length (ToLower L (TrimSpace L target)))
       \<and> NewRequest L cmcURL = None \<and> Getenv W ''CMC_API_KEY'' \<noteq> []
       \<and> Do W (cmcRequest L target (Getenv W ''CMC_API_KEY'')) = Inl err
       \<and> NewRequest L (coinGeckoURL (getCoinID L target)) = None
       \<and> Do W (coinGeckoRequest (coinGeckoURL (getCoinID L target))
                 (Getenv W ''COINGECKO_API_KEY'')) = Inl err'
       \<longrightarrow> ProcessTask L W input =
             ((finalFailure target, None),
              [cmcRequest L target (Getenv W ''CMC_API_KEY''),
               coinGeckoRequest (coinGeckoURL (getCoinID L target))
                 (Getenv W ''COINGECKO_API_KEY'')]))
   \<and> (\<forall>cmd target rest err r2 e2 s2. Fields L input = cmd # target # rest
       \<and> (ToLower L cmd = ''/price'' \<or> ToLower L cmd = ''/market'')
       \<and> \<not> (HasPrefix (ToLower L (TrimSpace L target)) ''0x''
              \<and> 40 \<le> length (ToLower L (TrimSpace L target)))
       \<and> NewRequest L cmcURL = None \<and> Getenv W ''CMC_API_KEY'' \<noteq> []
       \<and> Do W (cmcRequest L target (Getenv W ''CMC_API_KEY'')) = Inl err
       \<and> getCoinGeckoData L W (getCoinID L target) = ((r2, e2), s2)
       \<longrightarrow> ProcessTask L W input =
             ((if e2 = None \<and> \<not> Contains r2 ''Could not find data for''
               then formatOutput L r2 else finalFailure target, None),
              cmcRequest L target (Getenv W ''CMC_API_KEY'') # s2))"
proof (intro conjI allI impI)
  fix err
  assume "NewRequest L (coinGeckoURL coinID) = None
       \<and> Do W (coinGeckoRequest (coinGeckoURL coinID) (Getenv W ''COINGECKO_API_KEY'')) = Inl err"
  then show "getCoinGeckoData L W coinID =
             ((''Error contacting CoinGecko API.'', Some err),
              [coinGeckoRequest (coinGeckoURL coinID) (Getenv W ''COINGECKO_API_KEY'')])"
    by (simp add: coinGecko_transport)
next
  fix err
  assume "NewRequest L cmcURL = None \<and> Getenv W ''CMC_API_KEY'' \<noteq> []
       \<and> Do W (cmcRequest L symbol (Getenv W ''CMC_API_KEY'')) = Inl err"
  then show "getCMCData L W symbol =
             ((''Error contacting CoinMarketCap API.'', Some err),
              [cmcRequest L symbol (Getenv W ''CMC_API_KEY'')])"
    by (simp add: cmc_transport)
next
  fix err
  assume "NewRequest L (dexURL a) = None \<and> Do W (dexRequest a) = Inl err"
  then show "getDexData L W a = (([], Some err), [dexRequest a])"
    by (simp add: dex_transport)
next
  fix cmd target rest err
  assume "Fields L input = cmd # target # rest
       \<and> (ToLower L cmd = ''/price'' \<or> ToLower L cmd = ''/market'')
       \<and> HasPrefix (ToLower L (TrimSpace L target)) ''0x''
       \<and> 40 \<le> length (ToLower L (TrimSpace L target))
       \<and> NewRequest L (dexURL (ToLower L (TrimSpace L target))) = None
       \<and> Do W (dexRequest (ToLower L (TrimSpace L target))) = Inl err"
  then show "ProcessTask L W input =
             ((''Error fetching DEX data.'', Some err),
              [dexRequest (ToLower L (TrimSpace L target))])"
    by (intro ProcessTask_dex_unreachable [of L input cmd target rest]) simp_all
next
  fix cmd target rest
  assume "Fields L input = cmd # target # rest
       \<and> (ToLower L cmd = ''/price'' \<or> ToLower L cmd = ''/market'')
       \<and> \<not> (HasPrefix (ToLower L (TrimSpace L target)) ''0x''
              \<and> 40 \<le> length (ToLower L (TrimSpace L target)))"
  then show "snd (fst (ProcessTask L W input)) = None"
    by (intro ProcessTask_ticker_no_error [of L input cmd target rest]) simp_all
next
  fix cmd target rest err err'
  assume "Fields L input = cmd # target # rest
       \<and> (ToLower L cmd = ''/price'' \<or> ToLower L cmd = ''/market'')
       \<and> \<not> (HasPrefix (ToLower L (TrimSpace L target)) ''0x''
              \<and> 40 \<le> length (ToLower L (TrimSpace L target)))
       \<and> NewRequest L cmcURL = None \<and> Getenv W ''CMC_API_KEY'' \<noteq> []
       \<and> Do W (cmcRequest L target (Getenv W ''CMC_API_KEY'')) = Inl err
       \<and> NewRequest L (coinGeckoURL (getCoinID L target)) = None
       \<and> Do W (coinGeckoRequest (coinGeckoURL (getCoinID L target))
                 (Getenv W ''COINGECKO_API_KEY'')) = Inl err'"
  then show "ProcessTask L W input =
             ((finalFailure target, None),
              [cmcRequest L target (Getenv W ''CMC_API_KEY''),
               coinGeckoRequest (coinGeckoURL (getCoinID L target))
                 (Getenv W ''COINGECKO_API_KEY'')])"
    by (intro ProcessTask_ticker_unreachable [of L input cmd target rest W err err']) simp_all
next
  fix cmd target rest err r2 e2 s2
  assume "Fields L input = cmd # target # rest
       \<and> (ToLower L cmd = ''/price'' \<or> ToLower L cmd = ''/market'')
       \<and> \<not> (HasPrefix (ToLower L (TrimSpace L target)) ''0x''
              \<and> 40 \<le> length (ToLower L (TrimSpace L target)))
       \<and> NewRequest L cmcURL = None \<and> Getenv W ''CMC_API_KEY'' \<noteq> []
       \<and> Do W (cmcRequest L target (Getenv W ''CMC_API_KEY'')) = Inl err
       \<and> getCoinGeckoData L W (getCoinID L target) = ((r2, e2), s2)"
  then show "ProcessTask L W input =
             ((if e2 = None \<and> \<not> Contains r2 ''Could not find data for''
               then formatOutput L r2 else finalFailure target, None),
              cmcRequest L target (Getenv W ''CMC_API_KEY'') # s2)"
    by (intro ProcessTask_ticker_cmc_unreachable [of L input cmd target rest W err r2 e2 s2])
      simp_all
qed

theorem transport_errors_witness:
  "ProcessTask exampleLib (exampleWorld [] [] timeout timeout timeout)
     (''/market '' @ exampleAddress)
   = ((''Error fetching DEX data.'', Some ''context deadline exceeded''),
      [dexRequest (ToLower exampleLib exampleAddress)])"
  using transport_errors [where L = exampleLib
      and W = "exampleWorld [] [] timeout timeout timeout"
      and input = "''/market '' @ exampleAddress",
      THEN conjunct2, THEN conjunct2, THEN conjunct2, THEN conjunct1, rule_format,
      of "''/market''" exampleAddress "[]" "''context deadline exceeded''"]
  by (simp add: exampleDefs stringDefs dexURL_def dexRequest_def)

text \<open>
  The claim as stated promises an error value on every path. Here both centralized
  providers time out, and the caller gets the not-found message and no error.
\<close>

theorem both_providers_unreachable:
  "Do (exampleWorld ''key'' [] timeout timeout timeout) (cmcRequest exampleLib ''btc'' ''key'')
     = Inl ''context deadline exceeded''
   \<and> Do (exampleWorld ''key'' [] timeout timeout timeout)
        (coinGeckoRequest (coinGeckoURL ''bitcoin'') [])
     = Inl ''context deadline exceeded''
   \<and> ProcessTask exampleLib (exampleWorld ''key'' [] timeout timeout timeout) ''/price btc''
     = ((finalFailure ''btc'', None),
        [cmcRequest exampleLib ''btc'' ''key'', coinGeckoRequest (coinGeckoURL ''bitcoin'') []])"
  using ProcessTask_ticker_unreachable [where L = exampleLib
      and W = "exampleWorld ''key'' [] timeout timeout timeout"
      and input = "''/price btc''" and cmd = "''/price''" and target = "''btc''" and rest = "[]"
      and err = "''context deadline exceeded''" and err' = "''context deadline exceeded''"]
  by (simp add: exampleDefs stringDefs cmcURL_def cmcRequest_def coinGeckoURL_def
      coinGeckoRequest_def getCoinID_def coinIDMap_def)

text \<open>
  Claim C4, as the code has it. The CoinGecko and the Dexscreener client answer a status
  other than 200 with a text naming the status and a nil error, and a body that does not
  decode with an \<open>Error processing ... response.\<close> text and the decoder's error. The
  CoinMarketCap client does not read the status code: it decodes the body whatever the
  status is, so that a body that does not decode is a hard failure at any status, and
  replacing the status code of every response changes nothing in what the client returns.
\<close>

theorem status_and_decode_failures:
  "(\<forall>resp. NewRequest L (coinGeckoURL coinID) = None
       \<and> Do W (coinGeckoRequest (coinGeckoURL coinID) (Getenv W ''COINGECKO_API_KEY'')) = Inr resp
       \<and> StatusCode resp \<noteq> 200 \<longrightarrow>
       getCoinGeckoData L W coinID =
         ((''Error: CoinGecko API returned status '' @ SprintfD L (StatusCode resp)
           @ ''. Could not find data for '' @ coinID @ ''.'', None),
          [coinGeckoRequest (coinGeckoURL coinID) (Getenv W ''COINGECKO_API_KEY'')]))
   \<and> (\<forall>resp err. NewRequest L (coinGeckoURL coinID) = None
       \<and> Do W (coinGeckoRequest (coinGeckoURL coinID) (Getenv W ''COINGECKO_API_KEY'')) = Inr resp
       \<and> StatusCode resp = 200 \<and> DecodeCoinGecko L (Body resp) = Inl err \<longrightarrow>
       getCoinGeckoData L W coinID =
         ((''Error processing CG API response.'', Some err),
          [coinGeckoRequest (coinGeckoURL coinID) (Getenv W ''COINGECKO_API_KEY'')]))
   \<and> (\<forall>resp. NewRequest L (dexURL a) = None \<and> Do W (dexRequest a) = Inr resp
       \<and> StatusCode resp \<noteq> 200 \<longrightarrow>
       getDexData L W a =
         ((''Dexscreener Error: API returned status '' @ SprintfD L (StatusCode resp) @ ''.'',
           None), [dexRequest a]))
   \<and> (\<forall>resp err. NewRequest L (dexURL a) = None \<and> Do W (dexRequest a) = Inr resp
       \<and> StatusCode resp = 200 \<and> DecodeDexscreener L (Body resp) = Inl err \<longrightarrow>
       getDexData L W a =
         ((''Error processing Dexscreener response.'', Some err), [dexRequest a]))
   \<and> (\<forall>resp err. NewRequest L cmcURL = None \<and> Getenv W ''CMC_API_KEY'' \<noteq> []
       \<and> Do W (cmcRequest L symbol (Getenv W ''CMC_API_KEY'')) = Inr resp
       \<and> DecodeCMC L (Body resp) = Inl err \<longrightarrow>
       getCMCData L W symbol =
         ((''Error processing CMC API response.'', Some err),
          [cmcRequest L symbol (Getenv W ''CMC_API_KEY'')]))
   \<and> (\<forall>code. getCMCData L
         (W\<lparr>Do := \<lambda>req. map_sum id (\<lambda>resp. resp\<lparr>StatusCode := code\<rparr>) (Do W req)\<rparr>) symbol
       = getCMCData L W symbol)"
  by (intro conjI allI impI)
    (simp_all add: coinGecko_status coinGecko_decode dex_status dex_decode cmc_decode
      cmc_ignores_status)

theorem status_and_decode_failures_witness:
  "getCoinGeckoData exampleLib (exampleWorld [] [] timeout (answer 404 []) timeout) ''nosuchcoin''
     = ((''Error: CoinGecko API returned status 404. Could not find data for nosuchcoin.'', None),
        [coinGeckoRequest (coinGeckoURL ''nosuchcoin'') []])"
  using status_and_decode_failures [where L = exampleLib
      and W = "exampleWorld [] [] timeout (answer 404 []) timeout" and coinID = "''nosuchcoin''",
      THEN conjunct1, rule_format, of "\<lparr>StatusCode = 404, Body = []\<rparr>"]
  by (simp add: exampleDefs coinGeckoURL_def coinGeckoRequest_def)

text \<open>
  The claim as stated covers every client. Here CoinMarketCap answers with status 502 and
  a body that is not JSON: the client returns a non-nil error and no text about the
  status.
\<close>

theorem cmc_bad_gateway:
  "Do (exampleWorld ''key'' [] (answer 502 ''<html>'') timeout timeout) (cmcRequest exampleLib ''btc'' ''key'')
     = Inr \<lparr>StatusCode = 502, Body = ''<html>''\<rparr>
   \<and> getCMCData exampleLib (exampleWorld ''key'' [] (answer 502 ''<html>'') timeout timeout) ''btc''
     = ((''Error processing CMC API response.'', Some ''invalid character''),
        [cmcRequest exampleLib ''btc'' ''key''])"
  by (simp add: exampleDefs getCMCData_def cmcURL_def cmcRequest_def Let_def)

text \<open>
  Claim C5, as the code has it. The CoinGecko client sends its request whether or not
  \<open>COINGECKO_API_KEY\<close> is set, with the header \<open>x-cg-demo-api-key\<close> exactly when it is. The
  CoinMarketCap client with an empty \<open>CMC_API_KEY\<close> sends nothing and returns the text
  \<open>Error: CMC_API_KEY not found in .env file.\<close> with a nil error; with a key it sends its
  request with the header \<open>X-CMC_PRO_API_KEY\<close>. The Dexscreener client has no credential
  and sends no header.
\<close>

theorem auth_headers:
  "snd (getCoinGeckoData L W coinID) =
     (if NewRequest L (coinGeckoURL coinID) = None
      then [\<lparr>url = coinGeckoURL coinID, query = [],
             headers = (if Getenv W ''COINGECKO_API_KEY'' \<noteq> []
                        then [(''x-cg-demo-api-key'', Getenv W ''COINGECKO_API_KEY'')]
                        else [])\<rparr>]
      else [])
   \<and> (NewRequest L cmcURL = None \<and> Getenv W ''CMC_API_KEY'' = [] \<longrightarrow>
        getCMCData L W symbol = ((''Error: CMC_API_KEY not found in .env file.'', None), []))
   \<and> (NewRequest L cmcURL = None \<and> Getenv W ''CMC_API_KEY'' \<noteq> [] \<longrightarrow>
        snd (getCMCData L W symbol) =
          [\<lparr>url = cmcURL, query = [(''symbol'', ToUpper L symbol), (''convert'', ''USD'')],
            headers = [(''X-CMC_PRO_API_KEY'', Getenv W ''CMC_API_KEY'')]\<rparr>])
   \<and> snd (getDexData L W a) =
       (if NewRequest L (dexURL a) = None then [\<lparr>url = dexURL a, query = [], headers = []\<rparr>]
        else [])"
  by (intro conjI impI)
    (simp_all add: coinGecko_sent cmc_sent dex_sent cmc_no_key coinGeckoRequest_def
      cmcRequest_def dexRequest_def)

theorem auth_headers_witness:
  "snd (getCoinGeckoData exampleLib (exampleWorld [] [] timeout timeout timeout) ''bitcoin'')
     = [\<lparr>url = coinGeckoURL ''bitcoin'', query = [], headers = []\<rparr>]
   \<and> snd (getCMCData exampleLib (exampleWorld ''key'' [] timeout timeout timeout) ''btc'')
     = [\<lparr>url = cmcURL, query = [(''symbol'', ''BTC''), (''convert'', ''USD'')],
         headers = [(''X-CMC_PRO_API_KEY'', ''key'')]\<rparr>]"
  using auth_headers [where L = exampleLib
      and W = "exampleWorld [] [] timeout timeout timeout" and coinID = "''bitcoin''"]
    auth_headers [where L = exampleLib
      and W = "exampleWorld ''key'' [] timeout timeout timeout" and symbol = "''btc''"]
  by (simp add: exampleDefs asciiToUpper_def toUpperChar_def)

text \<open>
  The claim as stated has every client send its request without a credential. The
  CoinMarketCap client does not: with an empty key it sends no request.
\<close>

theorem cmc_without_key_sends_nothing:
  "Getenv (exampleWorld [] [] (answer 200 ''cmc: btc quote'') timeout timeout) ''CMC_API_KEY'' = []
   \<and> getCMCData exampleLib (exampleWorld [] [] (answer 200 ''cmc: btc quote'') timeout timeout)
        ''btc''
     = ((''Error: CMC_API_KEY not found in .env file.'', None), [])"
  by (simp add: exampleDefs getCMCData_def)

text \<open>
  Claim C6, as the code has it. The multi-provider \<open>ProcessTask\<close> returns the usage message
  for an input of fewer than two tokens and the unknown-command message when the first
  token, lowercased, is neither \<open>/price\<close> nor \<open>/market\<close>; in both cases the error is nil and
  nothing is sent. The single-provider \<open>ProcessTask\<close> reads its command line from the input
  trimmed, without one leading \<open>/\<close> and lowercased. When that command line has fewer than
  two tokens it sends nothing and returns a nil error; so it does for every input of fewer
  than two tokens, as long as trimming, removing the slash and lowercasing add no token
  (they never do in Go). Its result is a guidance message with nil error and nothing sent
  when the command line is empty, is a bare \<open>price\<close> or \<open>market\<close>, or starts with another
  word. Tokens, trimming and case are those of the library, whatever it returns.
\<close>

theorem usage_errors:
  "(length (Fields L input) < 2 \<longrightarrow> ProcessTask L W input = ((usageMessage, None), []))
   \<and> (\<forall>cmd target rest. Fields L input = cmd # target # rest
         \<and> ToLower L cmd \<noteq> ''/price'' \<and> ToLower L cmd \<noteq> ''/market''
       \<longrightarrow> ProcessTask L W input = ((unknownCommand (ToLower L cmd), None), []))
   \<and> (length (Fields L (ToLower L (TrimPrefix (TrimSpace L input) ''/''))) < 2 \<longrightarrow>
         snd (ProcessTask2 L W input) = [] \<and> snd (fst (ProcessTask2 L W input)) = None)
   \<and> (length (Fields L input) < 2
        \<and> length (Fields L (ToLower L (TrimPrefix (TrimSpace L input) ''/'')))
            \<le> length (Fields L input) \<longrightarrow>
         snd (ProcessTask2 L W input) = [] \<and> snd (fst (ProcessTask2 L W input)) = None)
   \<and> (Fields L (ToLower L (TrimPrefix (TrimSpace L input) ''/'')) = [] \<longrightarrow>
         ProcessTask2 L W input = ((noCommand, None), []))
   \<and> (Fields L (ToLower L (TrimPrefix (TrimSpace L input) ''/'')) = [''price''] \<longrightarrow>
         ProcessTask2 L W input =
           ((''Please specify a cryptocurrency symbol (e.g., price bitcoin)'', None), []))
   \<and> (Fields L (ToLower L (TrimPrefix (TrimSpace L input) ''/'')) = [''market''] \<longrightarrow>
         ProcessTask2 L W input =
           ((''Please specify a cryptocurrency symbol (e.g., market ethereum)'', None), []))
   \<and> (\<forall>command args. Fields L (ToLower L (TrimPrefix (TrimSpace L input) ''/'')) = command # args
         \<and> command \<noteq> ''price'' \<and> command \<noteq> ''market''
       \<longrightarrow> ProcessTask2 L W input = ((unknownCommand2 command, None), []))"
  by (intro conjI allI impI)
    (simp_all add: ProcessTask_usage ProcessTask_unknown ProcessTask2_short
      ProcessTask2_no_command ProcessTask2_unknown ProcessTask2_price ProcessTask2_market
      handlePriceCommand_no_args handleMarketCommand_no_args)

theorem usage_errors_witness:
  "ProcessTask exampleLib (exampleWorld ''key'' [] timeout timeout timeout) ''/price''
     = ((usageMessage, None), [])
   \<and> ProcessTask exampleLib (exampleWorld ''key'' [] timeout timeout timeout) ''/quote btc''
     = ((unknownCommand ''/quote'', None), [])
   \<and> snd (ProcessTask2 exampleLib (exampleWorld ''key'' [] timeout timeout timeout) '' /Price '')
     = []
   \<and> ProcessTask2 exampleLib (exampleWorld ''key'' [] timeout timeout timeout) ''/Quote btc''
     = ((unknownCommand2 ''quote'', None), [])"
proof -
  let ?W = "exampleWorld ''key'' [] timeout timeout timeout"
  have 1: "ProcessTask exampleLib ?W ''/price'' = ((usageMessage, None), [])"
    using usage_errors [where L = exampleLib and W = ?W and input = "''/price''",
        THEN conjunct1]
    by (simp add: stringDefs)
  have 2: "ProcessTask exampleLib ?W ''/quote btc'' = ((unknownCommand ''/quote'', None), [])"
    using usage_errors [where L = exampleLib and W = ?W and input = "''/quote btc''",
        THEN conjunct2, THEN conjunct1, rule_format, of "''/quote''" "''btc''" "[]"]
    by (simp add: stringDefs)
  have 3: "snd (ProcessTask2 exampleLib ?W '' /Price '') = []"
    using usage_errors [where L = exampleLib and W = ?W and input = "'' /Price ''",
        THEN conjunct2, THEN conjunct2, THEN conjunct2, THEN conjunct1]
    by (simp add: stringDefs HasPrefix_def)
  have 4: "ProcessTask2 exampleLib ?W ''/Quote btc'' = ((unknownCommand2 ''quote'', None), [])"
    using usage_errors [where L = exampleLib and W = ?W and input = "''/Quote btc''",
        THEN conjunct2, THEN conjunct2, THEN conjunct2, THEN conjunct2, THEN conjunct2,
        THEN conjunct2, THEN conjunct2, rule_format, of "''quote''" "[''btc'']"]
    by (simp add: stringDefs HasPrefix_def)
  from 1 2 3 4 show ?thesis by simp
qed

text \<open>
  The claim as stated is about the first token of the input. In the single-provider
  program the first token \<open>/\<close> is no command, yet the input is served as a price command
  and a request is sent.
\<close>

theorem slash_before_command:
  "Fields exampleLib ''/ price btc'' = [''/'', ''price'', ''btc'']
   \<and> ProcessTask2 exampleLib
        (exampleWorld [] [] timeout (answer 200 ''price: bitcoin'') timeout) ''/ price btc''
     = ((''BITCOIN Price: $50000.00'', None), [coinGeckoRequest (priceURL ''bitcoin'') []])"
  by (simp add: exampleDefs stringDefs ProcessTask2_def handlePriceCommand_def Let_def
      getCoinID2_def coinIDMap2_def priceURL_def coinGeckoRequest_def exampleDecodePrice_def
      asciiToTitle_def atKey_def)

text \<open>
  Claim C7. The 24h-change line of the formatter's output. With \<open>change\<close> the value under
  \<open>24h_change\<close> and \<open>(v, e)\<close> what \<open>strconv.ParseFloat\<close> returns for it without its
  \<open>%\<close>: a parse without error to a number that is at least zero gives the green marker
  and a \<open>+\<close> before the text; a parse without error to anything else (a negative number)
  gives the red marker and the text as it is, with no sign added; a parse error gives no
  line at all for the empty text and the text alone, with no marker, otherwise. Go's
  \<open>ParseFloat\<close> reports an error for the empty string and for \<open>abc\<close>; the example library
  does the same.
\<close>

theorem change_line_rendering:
  assumes "parseParts raw = P"
    and "getPart P ''24h_change'' = change"
    and "ParseFloat L (TrimSuffix change ''%'') = (v, e)"
  shows "(e = None \<and> geZero v \<longrightarrow>
            formatOutput L raw =
              headerLines P
              @ ''- **24h Change:** **'' @ greenCircle @ '' +'' @ change @ ''**'' @ nl
              @ marketCapLine P @ volumeLine P @ fdvLine P @ supplyLine P @ footerLine L P)
       \<and> (e = None \<and> \<not> geZero v \<longrightarrow>
            formatOutput L raw =
              headerLines P
              @ ''- **24h Change:** **'' @ redCircle @ '' '' @ change @ ''**'' @ nl
              @ marketCapLine P @ volumeLine P @ fdvLine P @ supplyLine P @ footerLine L P)
       \<and> (e \<noteq> None \<and> change = [] \<longrightarrow>
            formatOutput L raw =
              headerLines P
              @ marketCapLine P @ volumeLine P @ fdvLine P @ supplyLine P @ footerLine L P)
       \<and> (e \<noteq> None \<and> change \<noteq> [] \<longrightarrow>
            formatOutput L raw =
              headerLines P
              @ ''- **24h Change:** '' @ change @ nl
              @ marketCapLine P @ volumeLine P @ fdvLine P @ supplyLine P @ footerLine L P)"
  using assms by (auto simp add: formatOutput_def changeLine_def Let_def)

theorem change_line_rendering_witness:
  "formatOutput exampleLib ''24h_change:5.00%''
     = moneyBag @ '' **Token Price & Market Overview**'' @ nl @ ''- **Price (USD):** '' @ nl
       @ ''- **24h Change:** **'' @ greenCircle @ '' +5.00%**'' @ nl
       @ nl @ ''*(Data provided by )*''
   \<and> formatOutput exampleLib ''24h_change:-3.20%''
     = moneyBag @ '' **Token Price & Market Overview**'' @ nl @ ''- **Price (USD):** '' @ nl
       @ ''- **24h Change:** **'' @ redCircle @ '' -3.20%**'' @ nl
       @ nl @ ''*(Data provided by )*''
   \<and> formatOutput exampleLib ''24h_change:''
     = moneyBag @ '' **Token Price & Market Overview**'' @ nl @ ''- **Price (USD):** '' @ nl
       @ nl @ ''*(Data provided by )*''
   \<and> formatOutput exampleLib ''24h_change:abc%''
     = moneyBag @ '' **Token Price & Market Overview**'' @ nl @ ''- **Price (USD):** '' @ nl
       @ ''- **24h Change:** abc%'' @ nl
       @ nl @ ''*(Data provided by )*''"
  using change_line_rendering [of "''24h_change:5.00%''" "parseParts ''24h_change:5.00%''"
          "''5.00%''" exampleLib "Num 5" None]
    change_line_rendering [of "''24h_change:-3.20%''" "parseParts ''24h_change:-3.20%''"
          "''-3.20%''" exampleLib "Num (- 16 / 5)" None]
    change_line_rendering [of "''24h_change:''" "parseParts ''24h_change:''"
          "[]" exampleLib "Num 0" "Some ''invalid syntax''"]
    change_line_rendering [of "''24h_change:abc%''" "parseParts ''24h_change:abc%''"
          "''abc%''" exampleLib "Num 0" "Some ''invalid syntax''"]
  by (simp add: exampleLib_def exampleParseFloat_def parseParts_def SplitN2_def getPart_def
      TrimSuffix_def HasSuffix_def headerLines_def marketCapLine_def volumeLine_def
      fdvLine_def supplyLine_def footerLine_def asciiToUpper_def Let_def)

text \<open>
  Claim C8. The loop of the formatter computes what the specification describes: the value
  of a key is that of the last piece with a colon whose key it is; a piece without a colon
  changes nothing and the pieces after it are read as before. The lines for market cap,
  volume and FDV are there exactly when their key has a non-empty value, the supply line
  when its value is moreover not \<open>N/A\<close>.
\<close>

theorem formatter_parse:
  "parseParts raw k = lastValue (Split raw (CHR '';'')) k
   \<and> (\<not> hasColon seg \<longrightarrow> parseLoop (xs @ seg # ys) m = parseLoop (xs @ ys) m)
   \<and> (hasColon seg \<longrightarrow> parseLoop (xs @ [seg]) m (keyOf seg) = Some (valueOf seg))
   \<and> marketCapLine (parseParts raw)
       = optionalLine ''- **Market Cap:** '' (lastValue (Split raw (CHR '';'')) ''market_cap_usd'')
   \<and> volumeLine (parseParts raw)
       = optionalLine ''- **24h Volume:** '' (lastValue (Split raw (CHR '';'')) ''volume_24h'')
   \<and> fdvLine (parseParts raw)
       = optionalLine ''- **Fully Diluted Value (FDV):** ''
           (lastValue (Split raw (CHR '';'')) ''fdv'')
   \<and> supplyLine (parseParts raw)
       = (if lastValue (Split raw (CHR '';'')) ''circulating_supply'' = Some ''N/A'' then []
          else optionalLine ''- **Circulating Supply:** ''
                 (lastValue (Split raw (CHR '';'')) ''circulating_supply''))
   \<and> formatOutput L raw
       = headerLines (parseParts raw)
         @ changeLine L (getPart (parseParts raw) ''24h_change'')
         @ marketCapLine (parseParts raw) @ volumeLine (parseParts raw)
         @ fdvLine (parseParts raw) @ supplyLine (parseParts raw)
         @ footerLine L (parseParts raw)"
proof (intro conjI impI)
  show "parseParts raw k = lastValue (Split raw (CHR '';'')) k"
    by (rule parseParts_lastValue)
  show "parseLoop (xs @ seg # ys) m = parseLoop (xs @ ys) m" if "\<not> hasColon seg"
    using parseLoop_malformed [OF that, of ys "parseLoop xs m"]
    by (simp only: parseLoop_append)
  show "parseLoop (xs @ [seg]) m (keyOf seg) = Some (valueOf seg)" if "hasColon seg"
    using that by (simp add: parseLoop_lastValue lastValue_append)
  show "marketCapLine (parseParts raw)
       = optionalLine ''- **Market Cap:** '' (lastValue (Split raw (CHR '';'')) ''market_cap_usd'')"
    by (simp add: marketCapLine_def optionalLine_def parseParts_lastValue split: option.splits)
  show "volumeLine (parseParts raw)
       = optionalLine ''- **24h Volume:** '' (lastValue (Split raw (CHR '';'')) ''volume_24h'')"
    by (simp add: volumeLine_def optionalLine_def parseParts_lastValue split: option.splits)
  show "fdvLine (parseParts raw)
       = optionalLine ''- **Fully Diluted Value (FDV):** ''
           (lastValue (Split raw (CHR '';'')) ''fdv'')"
    by (simp add: fdvLine_def optionalLine_def parseParts_lastValue split: option.splits)
  show "supplyLine (parseParts raw)
       = (if lastValue (Split raw (CHR '';'')) ''circulating_supply'' = Some ''N/A'' then []
          else optionalLine ''- **Circulating Supply:** ''
                 (lastValue (Split raw (CHR '';'')) ''circulating_supply''))"
    by (simp add: supplyLine_def optionalLine_def parseParts_lastValue split: option.splits)
  show "formatOutput L raw
       = headerLines (parseParts raw)
         @ changeLine L (getPart (parseParts raw) ''24h_change'')
         @ marketCapLine (parseParts raw) @ volumeLine (parseParts raw)
         @ fdvLine (parseParts raw) @ supplyLine (parseParts raw)
         @ footerLine L (parseParts raw)"
    by (rule formatOutput_pieces)
qed

theorem formatter_parse_witness:
  "parseParts ''name:A;junk;name:B;fdv:;volume_24h:$5'' ''name'' = Some ''B''
   \<and> fdvLine (parseParts ''name:A;junk;name:B;fdv:;volume_24h:$5'') = []
   \<and> volumeLine (parseParts ''name:A;junk;name:B;fdv:;volume_24h:$5'')
       = ''- **24h Volume:** $5'' @ nl
   \<and> marketCapLine (parseParts ''name:A;junk;name:B;fdv:;volume_24h:$5'') = []"
  using formatter_parse [where raw = "''name:A;junk;name:B;fdv:;volume_24h:$5''"
      and k = "''name''" and seg = "''junk''" and xs = "[]" and ys = "[]"]
  by (simp add: hasColon_def keyOf_def valueOf_def optionalLine_def)

text \<open>
  Claim C9. A supply of exactly zero is printed by \<open>formatQuantity\<close> as \<open>N/A\<close>, whatever
  the library does, and the formatter then leaves the circulating-supply line out of the
  output made from the quote of either centralized provider. A field missing from the
  JSON decodes to zero in Go, so the decoded quote, and with it the output, is the same
  for a zero and for a missing supply; and a quote with no supply key at all has no supply
  line either. The one assumption on the library is that the printed total supply has no
  semicolon in it.
\<close>

theorem zero_supply_omitted:
  "formatQuantity L (Num 0) = ''N/A''
   \<and> (NewRequest L cmcURL = None \<and> Getenv W ''CMC_API_KEY'' \<noteq> []
        \<and> Do W (cmcRequest L symbol (Getenv W ''CMC_API_KEY'')) = Inr resp
        \<and> DecodeCMC L (Body resp) = Inr d \<and> ErrorCode (Status d) = 0
        \<and> Data d (ToUpper L symbol) = Some x
        \<and> CMCData.CirculatingSupply x = Num 0
        \<and> CHR '';'' \<notin> set (formatQuantity L (CMCData.TotalSupply x))
      \<longrightarrow> (\<exists>raw. getCMCData L W symbol
                     = ((raw, None), [cmcRequest L symbol (Getenv W ''CMC_API_KEY'')])
                 \<and> supplyLine (parseParts raw) = []
                 \<and> formatOutput L raw =
                      headerLines (parseParts raw)
                      @ changeLine L (getPart (parseParts raw) ''24h_change'')
                      @ marketCapLine (parseParts raw) @ volumeLine (parseParts raw)
                      @ fdvLine (parseParts raw) @ footerLine L (parseParts raw)))
   \<and> (NewRequest L (coinGeckoURL coinID) = None
        \<and> Do W (coinGeckoRequest (coinGeckoURL coinID) (Getenv W ''COINGECKO_API_KEY''))
            = Inr resp'
        \<and> StatusCode resp' = 200 \<and> DecodeCoinGecko L (Body resp') = Inr d'
        \<and> CoinGeckoMarketData.CirculatingSupply (MarketData d') = Num 0
        \<and> CHR '';'' \<notin> set (formatQuantity L (CoinGeckoMarketData.TotalSupply (MarketData d')))
      \<longrightarrow> (\<exists>raw. getCoinGeckoData L W coinID
                     = ((raw, None),
                        [coinGeckoRequest (coinGeckoURL coinID) (Getenv W ''COINGECKO_API_KEY'')])
                 \<and> supplyLine (parseParts raw) = []
                 \<and> formatOutput L raw =
                      headerLines (parseParts raw)
                      @ changeLine L (getPart (parseParts raw) ''24h_change'')
                      @ marketCapLine (parseParts raw) @ volumeLine (parseParts raw)
                      @ fdvLine (parseParts raw) @ footerLine L (parseParts raw)))
   \<and> (parseParts other ''circulating_supply'' = None \<longrightarrow>
        supplyLine (parseParts other) = [])"
proof (intro conjI impI)
  show "formatQuantity L (Num 0) = ''N/A''"
    by (simp add: formatQuantity_def)
next
  assume h: "NewRequest L cmcURL = None \<and> Getenv W ''CMC_API_KEY'' \<noteq> []
        \<and> Do W (cmcRequest L symbol (Getenv W ''CMC_API_KEY'')) = Inr resp
        \<and> DecodeCMC L (Body resp) = Inr d \<and> ErrorCode (Status d) = 0
        \<and> Data d (ToUpper L symbol) = Some x
        \<and> CMCData.CirculatingSupply x = Num 0
        \<and> CHR '';'' \<notin> set (formatQuantity L (CMCData.TotalSupply x))"
  let ?A = "''token_source:coinmarketcap;current_price_usd:''
              @ formatCurrency L (Price (USD (Quote x)))
              @ '';24h_change:'' @ SprintfF2 L (PercentChange24h (USD (Quote x))) @ ''%''
              @ '';market_cap_usd:'' @ formatCurrency L (CMCQuoteUSD.MarketCap (USD (Quote x)))"
  let ?s = "[cmcRequest L symbol (Getenv W ''CMC_API_KEY'')]"
  from h have q: "getCMCData L W symbol = ((?A @ '';circulating_supply:''
       @ formatQuantity L (CMCData.CirculatingSupply x) @ '';total_supply:''
       @ formatQuantity L (CMCData.TotalSupply x), None), ?s)" (is "_ = ((?raw, None), _)")
    using cmc_quote [of L W symbol resp d x] by simp
  from h have fmt: "formatQuantity L (CMCData.CirculatingSupply x) = ''N/A''"
    by (simp add: formatQuantity_def)
  from h have semi: "CHR '';'' \<notin> set (formatQuantity L (CMCData.TotalSupply x))"
    by simp
  have "supplyLine (parseParts ?raw) = []"
    unfolding fmt using supplyLine_not_available [OF semi, of ?A] by simp
  then show "\<exists>raw. getCMCData L W symbol
                     = ((raw, None), [cmcRequest L symbol (Getenv W ''CMC_API_KEY'')])
                 \<and> supplyLine (parseParts raw) = []
                 \<and> formatOutput L raw =
                      headerLines (parseParts raw)
                      @ changeLine L (getPart (parseParts raw) ''24h_change'')
                      @ marketCapLine (parseParts raw) @ volumeLine (parseParts raw)
                      @ fdvLine (parseParts raw) @ footerLine L (parseParts raw)"
    using q by (simp add: formatOutput_pieces)
next
  assume h: "NewRequest L (coinGeckoURL coinID) = None
        \<and> Do W (coinGeckoRequest (coinGeckoURL coinID) (Getenv W ''COINGECKO_API_KEY''))
            = Inr resp'
        \<and> StatusCode resp' = 200 \<and> DecodeCoinGecko L (Body resp') = Inr d'
        \<and> CoinGeckoMarketData.CirculatingSupply (MarketData d') = Num 0
        \<and> CHR '';'' \<notin> set (formatQuantity L (CoinGeckoMarketData.TotalSupply (MarketData d')))"
  let ?A = "''token_source:coingecko;current_price_usd:''
              @ formatCurrency L (atKey (CoinGeckoMarketData.CurrentPrice (MarketData d')) ''usd'')
              @ '';current_price_eur:''
              @ formatCurrency L (atKey (CoinGeckoMarketData.CurrentPrice (MarketData d')) ''eur'')
              @ '';24h_change:'' @ SprintfF2 L (PriceChangePercentage24h (MarketData d')) @ ''%''
              @ '';market_cap_usd:''
              @ formatCurrency L (atKey (CoinGeckoMarketData.MarketCap (MarketData d')) ''usd'')"
  let ?s = "[coinGeckoRequest (coinGeckoURL coinID) (Getenv W ''COINGECKO_API_KEY'')]"
  from h have q: "getCoinGeckoData L W coinID = ((?A @ '';circulating_supply:''
       @ formatQuantity L (CoinGeckoMarketData.CirculatingSupply (MarketData d'))
       @ '';total_supply:''
       @ formatQuantity L (CoinGeckoMarketData.TotalSupply (MarketData d')), None), ?s)"
    (is "_ = ((?raw, None), _)")
    using coinGecko_quote [of L coinID W resp' d'] by simp
  from h have fmt: "formatQuantity L (CoinGeckoMarketData.CirculatingSupply (MarketData d')) = ''N/A''"
    by (simp add: formatQuantity_def)
  from h have semi: "CHR '';'' \<notin> set (formatQuantity L (CoinGeckoMarketData.TotalSupply (MarketData d')))"
    by simp
  have "supplyLine (parseParts ?raw) = []"
    unfolding fmt using supplyLine_not_available [OF semi, of ?A] by simp
  then show "\<exists>raw. getCoinGeckoData L W coinID
                     = ((raw, None),
                        [coinGeckoRequest (coinGeckoURL coinID) (Getenv W ''COINGECKO_API_KEY'')])
                 \<and> supplyLine (parseParts raw) = []
                 \<and> formatOutput L raw =
                      headerLines (parseParts raw)
                      @ changeLine L (getPart (parseParts raw) ''24h_change'')
                      @ marketCapLine (parseParts raw) @ volumeLine (parseParts raw)
                      @ fdvLine (parseParts raw) @ footerLine L (parseParts raw)"
    using q by (simp add: formatOutput_pieces)
next
  assume "parseParts other ''circulating_supply'' = None"
  then show "supplyLine (parseParts other) = []"
    by (simp add: supplyLine_def)
qed

theorem zero_supply_omitted_witness:
  "CMCData.CirculatingSupply bitcoinCMC = Num 0
   \<and> supplyLine (parseParts (fst (fst (getCMCData exampleLib
         (exampleWorld ''key'' [] (answer 200 ''cmc: btc quote'') timeout timeout) ''btc'')))) = []"
proof -
  let ?W = "exampleWorld ''key'' [] (answer 200 ''cmc: btc quote'') timeout timeout"
  let ?resp = "\<lparr>StatusCode = 200, Body = ''cmc: btc quote''\<rparr>"
  let ?d = "\<lparr>Status = \<lparr>ErrorCode = 0, ErrorMessage = []\<rparr>, Data = [''BTC'' \<mapsto> bitcoinCMC]\<rparr>"
  have h: "NewRequest exampleLib cmcURL = None \<and> Getenv ?W ''CMC_API_KEY'' \<noteq> []
        \<and> Do ?W (cmcRequest exampleLib ''btc'' (Getenv ?W ''CMC_API_KEY'')) = Inr ?resp
        \<and> DecodeCMC exampleLib (Body ?resp) = Inr ?d \<and> ErrorCode (Status ?d) = 0
        \<and> Data ?d (ToUpper exampleLib ''btc'') = Some bitcoinCMC
        \<and> CMCData.CirculatingSupply bitcoinCMC = Num 0
        \<and> CHR '';'' \<notin> set (formatQuantity exampleLib (CMCData.TotalSupply bitcoinCMC))"
    by (simp add: exampleLib_def exampleWorld_def answer_def cmcURL_def cmcRequest_def
      HasPrefix_def exampleDecodeCMC_def asciiToUpper_def toUpperChar_def bitcoinCMC_def
      formatQuantity_def exampleQuantity_def)
  from zero_supply_omitted [where L = exampleLib and W = ?W and symbol = "''btc''"
      and resp = ?resp and d = ?d and x = bitcoinCMC] h
  obtain raw where "getCMCData exampleLib ?W ''btc''
      = ((raw, None), [cmcRequest exampleLib ''btc'' (Getenv ?W ''CMC_API_KEY'')])"
    and "supplyLine (parseParts raw) = []"
    by blast
  then show ?thesis by (simp add: bitcoinCMC_def)
qed

text \<open>
  Claim C10, as the code has it. For a response with status 200 that decodes to at least
  one pair, the Dexscreener client prints the number that \<open>strconv.ParseFloat\<close> returns
  for the \<open>priceUsd\<close> of the first pair, whether or not it returns an error with it, and
  its own error is nil. Go returns zero with a syntax error, so a malformed price of the
  first pair is reported as \<open>$0.00\<close>. The pairs after the first are never read.
\<close>

theorem dex_first_pair_price:
  assumes "NewRequest L (dexURL a) = None"
    and "Do W (dexRequest a) = Inr resp"
    and "StatusCode resp = 200"
    and "DecodeDexscreener L (Body resp) = Inr d"
    and "Pairs d = pair # others"
    and "ParseFloat L (PriceUsd pair) = (v, e)"
  shows "getDexData L W a =
           ((''token_source:dexscreener;chain_id:'' @ ChainID pair
             @ '';current_price_usd:'' @ SprintfCurrency L v
             @ '';volume_24h:'' @ SprintfCurrency L (H24 (Volume pair))
             @ '';fdv:'' @ SprintfCurrency L (FDV pair)
             @ '';base_token:'' @ Token.Symbol (BaseToken pair), None), [dexRequest a])
       \<and> (v = Num 0 \<and> SprintfCurrency L (Num 0) = ''$0.00'' \<longrightarrow>
            getDexData L W a =
              ((''token_source:dexscreener;chain_id:'' @ ChainID pair
                @ '';current_price_usd:$0.00''
                @ '';volume_24h:'' @ SprintfCurrency L (H24 (Volume pair))
                @ '';fdv:'' @ SprintfCurrency L (FDV pair)
                @ '';base_token:'' @ Token.Symbol (BaseToken pair), None), [dexRequest a]))"
  using dex_first_pair [OF assms(1-5)] assms(6) by (simp add: formatCurrency_def)

theorem dex_first_pair_price_witness:
  "getDexData exampleLib (exampleWorld [] [] timeout timeout (answer 200 ''dex: bad price''))
     exampleAddress
   = ((''token_source:dexscreener;chain_id:ethereum;current_price_usd:$0.00''
       @ '';volume_24h:$1,000,000.00;fdv:$1,000,000.00;base_token:PEPE'', None),
      [dexRequest exampleAddress])"
  using dex_first_pair_price [where L = exampleLib
      and W = "exampleWorld [] [] timeout timeout (answer 200 ''dex: bad price'')"
      and a = exampleAddress and resp = "\<lparr>StatusCode = 200, Body = ''dex: bad price''\<rparr>"
      and d = "\<lparr>Pairs = [examplePair ''abc'']\<rparr>" and pair = "examplePair ''abc''"
      and others = "[]" and v = "Num 0" and e = "Some ''invalid syntax''"]
  by (simp add: exampleDefs dexURL_def dexRequest_def)

text \<open>
  The claim as stated is about a response with at least one unparsable price. Here the
  second pair has one and the first has not: the price reported is that of the first
  pair, not \<open>$0.00\<close>.
\<close>

theorem dex_unparsable_later_pair:
  "Pairs (projr (DecodeDexscreener exampleLib ''dex: good then bad''))
     = [examplePair ''1.5'', examplePair ''abc'']
   \<and> ParseFloat exampleLib (PriceUsd (examplePair ''abc'')) = (Num 0, Some ''invalid syntax'')
   \<and> getDexData exampleLib
        (exampleWorld [] [] timeout timeout (answer 200 ''dex: good then bad'')) exampleAddress
       = ((''token_source:dexscreener;chain_id:ethereum;current_price_usd:$1.50''
           @ '';volume_24h:$1,000,000.00;fdv:$1,000,000.00;base_token:PEPE'', None),
          [dexRequest exampleAddress])"
  by (simp add: exampleDefs getDexData_def dexURL_def dexRequest_def Let_def formatCurrency_def)

end
